theory Spec2Isabelle
  imports Main
begin

section \<open>Speech-to-text backends of mycroft/stt/__init__.py\<close>

text \<open>
  Python values are modelled as follows. A \<open>str\<close> is a \<open>string\<close>; the characters are
  read as ASCII code units (language tags, tokens and module names are ASCII), and the
  case mappings below are those of \<open>str.lower\<close> and \<open>str.upper\<close> on ASCII. A value that
  may be \<open>None\<close> is an \<open>option\<close>. A dictionary lookup \<open>d.get(k)\<close> is an \<open>option\<close> too.
  An exception is a value of type \<open>exn\<close>, and a call that may raise returns \<open>exn + 'a\<close>.
\<close>

subsection \<open>Language normalisation: STT.init_language\<close>

definition lower_char :: "char \<Rightarrow> char" where
  "lower_char c =
     (let n = (of_char c :: nat) in if 65 \<le> n \<and> n \<le> 90 then char_of (n + 32) else c)"

definition upper_char :: "char \<Rightarrow> char" where
  "upper_char c =
     (let n = (of_char c :: nat) in if 97 \<le> n \<and> n \<le> 122 then char_of (n - 32) else c)"

definition py_lower :: "string \<Rightarrow> string" where
  "py_lower s = map lower_char s"

definition py_upper :: "string \<Rightarrow> string" where
  "py_upper s = map upper_char s"

text \<open>\<open>s.split("-")\<close>: the pieces between dashes; an empty string gives one empty piece.\<close>

fun split_dash :: "string \<Rightarrow> string list" where
  "split_dash [] = [[]]"
| "split_dash (c # cs) =
     (if c = CHR ''-'' then [] # split_dash cs
      else (case split_dash cs of
              [] \<Rightarrow> [[c]]
            | w # ws \<Rightarrow> (c # w) # ws))"

text \<open>
  \<open>init_language(config_core)\<close>: the argument is \<open>config_core.get("lang")\<close>, \<open>None\<close> when
  the key is absent, in which case the default \<open>"en-US"\<close> is taken.
\<close>

definition init_language :: "string option \<Rightarrow> string" where
  "init_language cfg_lang =
     (let lang = (case cfg_lang of None \<Rightarrow> ''en-US'' | Some l \<Rightarrow> l);
          langs = split_dash lang
      in if length langs = 2
         then py_lower (langs ! 0) @ ''-'' @ py_upper (langs ! 1)
         else lang)"

subsection \<open>Exceptions and HTTP responses\<close>

text \<open>
  A response of the \<open>requests\<close> library, as far as the module reads it: the status code
  and the body text.
\<close>

record response =
  status_code :: int
  resp_text :: string

text \<open>
  The exceptions the module raises or lets through. \<open>HTTPError\<close> carries its response
  (the wrapper reads \<open>e.response.status_code\<close>); \<open>ValueError\<close> and \<open>Exception\<close> carry
  their message; \<open>OtherError\<close> stands for any other exception class raised by a
  collaborator (network, SDK, configuration).
\<close>

datatype exn =
    HTTPError response
  | ValueError string
  | TypeError
  | AttributeError
  | UnboundLocalError
  | IndexError
  | NotImplementedError
  | Exception string
  | OtherError string

subsection \<open>The decorator requires_pairing\<close>

text \<open>
  \<open>requires_pairing(func)\<close> returns \<open>wrapper\<close>; \<open>requires_pairing func args\<close> is the call
  \<open>wrapper(*args, **kwargs)\<close>. The wrapped function returns a transcript or raises.
\<close>

definition requires_pairing :: "('a \<Rightarrow> exn + string) \<Rightarrow> 'a \<Rightarrow> exn + string" where
  "requires_pairing func args =
     (case func args of
        Inr r \<Rightarrow> Inr r
      | Inl e \<Rightarrow>
          (case e of
             HTTPError resp \<Rightarrow>
               if status_code resp = 401 then Inr ''pair my device'' else Inl e
           | _ \<Rightarrow> Inl e))"

subsection \<open>The factory: STTFactory.create\<close>

text \<open>The keys of \<open>STTFactory.CLASSES\<close>.\<close>

definition CLASSES :: "string list" where
  "CLASSES =
     [''mycroft'', ''google'', ''google_cloud'', ''google_cloud_streaming'', ''wit'',
      ''ibm'', ''kaldi'', ''bing'', ''govivace'', ''houndify'', ''deepspeech_server'',
      ''deepspeech_stream_server'', ''mycroft_deepspeech'', ''yandex'', ''baidu'',
      ''microsoft'']"

text \<open>
  The value of \<open>config.get("module")\<close> when the key is present: a string, or a value of
  another type (for which \<open>"module of stt is " + module\<close> raises \<open>TypeError\<close>).
\<close>

datatype modval = MStr string | MOther

text \<open>
  The collaborators of the factory. \<open>construct name\<close> is the outcome of calling the
  built-in class \<open>CLASSES[name]\<close>: the backend, or the exception its constructor raises
  (constructors read the configuration and open clients). \<open>load_stt_plugin name\<close> is the
  plugin loader: it raises, or returns a class, given by the outcome of calling it.
\<close>

record 'b factory_env =
  construct :: "string \<Rightarrow> exn + 'b"
  load_stt_plugin :: "string \<Rightarrow> exn + (exn + 'b)"

text \<open>The body of the \<open>try\<close> block, from the logging of the module name on.\<close>

definition try_body :: "'b factory_env \<Rightarrow> modval \<Rightarrow> exn + 'b" where
  "try_body env module =
     (case module of
        MOther \<Rightarrow> Inl TypeError
      | MStr name \<Rightarrow>
          if name \<in> set CLASSES then construct env name
          else (case load_stt_plugin env name of
                  Inl e \<Rightarrow> Inl e
                | Inr clazz \<Rightarrow> clazz))"

text \<open>
  \<open>create()\<close>. The argument is the outcome of \<open>Configuration.get().get("stt", {})\<close>
  followed by the lookup of \<open>"module"\<close>: \<open>Inl e\<close> when loading the configuration raises
  (then \<open>module\<close> is unbound when the handler reads it), \<open>Inr None\<close> when the key is absent
  (the default \<open>"mycroft"\<close> is taken), \<open>Inr (Some m)\<close> otherwise. In the handler,
  \<open>MycroftSTT()\<close> is the built-in class of \<open>"mycroft"\<close>.
\<close>

definition create :: "'b factory_env \<Rightarrow> exn + modval option \<Rightarrow> exn + 'b" where
  "create env conf =
     (case conf of
        Inl e0 \<Rightarrow> Inl UnboundLocalError
      | Inr m \<Rightarrow>
          (let module = (case m of None \<Rightarrow> MStr ''mycroft'' | Some v \<Rightarrow> v)
           in case try_body env module of
                Inr backend \<Rightarrow> Inr backend
              | Inl e \<Rightarrow>
                  if module \<noteq> MStr ''mycroft'' then construct env ''mycroft''
                  else Inl e))"

subsection \<open>Python helpers\<close>

text \<open>\<open>str(x)\<close> of a value that is a string or \<open>None\<close>.\<close>

definition py_str :: "string option \<Rightarrow> string" where
  "py_str v = (case v of None \<Rightarrow> ''None'' | Some s \<Rightarrow> s)"

text \<open>\<open>x or d\<close> on strings: \<open>None\<close> and the empty string are falsy.\<close>

definition py_or :: "string option \<Rightarrow> string \<Rightarrow> string" where
  "py_or x d = (case x of None \<Rightarrow> d | Some s \<Rightarrow> if s = [] then d else s)"

text \<open>\<open>sep.join(xs)\<close>.\<close>

fun py_join :: "string \<Rightarrow> string list \<Rightarrow> string" where
  "py_join sep [] = []"
| "py_join sep [x] = x"
| "py_join sep (x # y # ys) = x @ sep @ py_join sep (y # ys)"

text \<open>\<open>str(n)\<close> of an integer, in decimal.\<close>

function str_nat :: "nat \<Rightarrow> string" where
  "str_nat n =
     (if n < 10 then [''0123456789'' ! n]
      else str_nat (n div 10) @ [''0123456789'' ! (n mod 10)])"
  by pat_completeness auto
termination
  by (relation "measure id") auto

definition str_int :: "int \<Rightarrow> string" where
  "str_int i = (if i < 0 then ''-'' @ str_nat (nat (- i)) else str_nat (nat i))"

subsection \<open>Audio and requests\<close>

text \<open>
  \<open>AudioData\<close> of the speech_recognition library: the sample rate and the frames. The
  encodings it derives (\<open>get_flac_data\<close>, \<open>get_wav_data\<close>, \<open>get_raw_data\<close> with their
  optional conversion arguments) are kept symbolic.
\<close>

record audio =
  sample_rate :: int
  frame_data :: "nat list"

datatype payload =
    FlacData audio "int option"
  | WavData audio "int option"
  | RawData audio "int option" "int option"

text \<open>The arguments of a \<open>requests.post\<close> call.\<close>

record http_request =
  req_url :: string
  req_auth :: "(string \<times> string) option"
  req_headers :: "(string \<times> string) list"
  req_params :: "(string \<times> string) list"
  req_data :: payload

subsection \<open>STT and TokenSTT construction\<close>

text \<open>
  What \<open>STT.__init__\<close> reads from \<open>Configuration.get()\<close>: the entry \<open>"lang"\<close>, the
  sub-dictionary of the configured module, and its \<open>"credential"\<close> dictionary (empty when
  absent). Their values are strings.
\<close>

record core_config =
  cfg_lang :: "string option"
  cfg_module :: "string \<rightharpoonup> string"
  cfg_credential :: "string \<rightharpoonup> string"

record stt =
  lang :: string
  config :: "string \<rightharpoonup> string"
  credential :: "string \<rightharpoonup> string"

record token_stt = stt +
  token :: string

definition TokenSTT_init :: "core_config \<Rightarrow> token_stt" where
  "TokenSTT_init cc =
     \<lparr>lang = init_language (cfg_lang cc),
      config = cfg_module cc,
      credential = cfg_credential cc,
      token = py_str (cfg_credential cc ''token'')\<rparr>"

subsection \<open>GoogleSTT\<close>

text \<open>
  \<open>GoogleSTT.execute\<close>. The first argument is \<open>recognizer.recognize_google\<close>, called with
  the audio, the key and the language.
\<close>

definition GoogleSTT_execute ::
  "(audio \<Rightarrow> string \<Rightarrow> string \<Rightarrow> exn + string) \<Rightarrow> token_stt \<Rightarrow> audio \<Rightarrow> string option
   \<Rightarrow> token_stt \<times> (exn + string)" where
  "GoogleSTT_execute recognize_google self a language =
     (let self1 = self\<lparr>lang := py_or language (lang self)\<rparr>
      in (self1, recognize_google a (token self1) (lang self1)))"

subsection \<open>IBMSTT\<close>

text \<open>
  The decoded body of an IBM response, as far as \<open>execute\<close> reads it: the entry
  \<open>'error_code'\<close> and the entry \<open>'results'\<close>, a list of utterances; an utterance is its
  entry \<open>'alternatives'\<close>, a list of hypotheses; a hypothesis is its entry \<open>'transcript'\<close>.
  An absent entry is \<open>None\<close>.
\<close>

type_synonym hypothesis = "string option"
type_synonym utterance = "hypothesis list option"

record ibm_json =
  ibm_error_code :: "string option"
  ibm_results :: "utterance list option"

definition ibm_supported_languages :: "string list" where
  "ibm_supported_languages =
     [''ar-AR'', ''pt-BR'', ''zh-CN'', ''nl-NL'', ''en-GB'', ''en-US'', ''fr-FR'',
      ''de-DE'', ''it-IT'', ''ja-JP'', ''ko-KR'', ''es-AR'', ''es-ES'', ''es-CL'',
      ''es-CO'', ''es-MX'', ''es-PE'']"

text \<open>The loop over \<open>result['results']\<close> that collects the transcripts.\<close>

fun ibm_transcription :: "utterance list \<Rightarrow> string list \<Rightarrow> exn + string list" where
  "ibm_transcription [] transcription = Inr transcription"
| "ibm_transcription (u # us) transcription =
     (case u of
        None \<Rightarrow> Inl (Exception ''Transcription failed. Invalid or empty results.'')
      | Some hyps \<Rightarrow> ibm_transcription us (transcription @ List.map_filter id hyps))"

text \<open>
  The handling of the response; \<open>json_loads\<close> decodes the body or raises. A body with an
  error code falls through all branches: the method returns \<open>None\<close>.
\<close>

definition ibm_response ::
  "(string \<Rightarrow> exn + ibm_json) \<Rightarrow> response \<Rightarrow> exn + string option" where
  "ibm_response json_loads r =
     (if status_code r = 200 then
        (case json_loads (resp_text r) of
           Inl e \<Rightarrow> Inl e
         | Inr result \<Rightarrow>
             if ibm_error_code result = None then
               (case ibm_results result of
                  None \<Rightarrow> Inl (Exception ''Transcription failed. Invalid or empty results.'')
                | Some us \<Rightarrow>
                    if length us < 1 \<or> hd us = None
                    then Inl (Exception ''Transcription failed. Invalid or empty results.'')
                    else (case ibm_transcription us [] of
                            Inl e \<Rightarrow> Inl e
                          | Inr ts \<Rightarrow> Inr (Some (py_join [CHR 0x0A] ts))))
             else Inr None)
      else if status_code r = 401 then Inl (Exception ''Invalid API key for IBM Cloud.'')
      else Inl (Exception (''Request to IBM Cloud failed. Code: '' @ str_int (status_code r)
                           @ '' Body: '' @ resp_text r)))"

text \<open>\<open>IBMSTT.execute\<close>; the first argument is \<open>requests.post\<close>.\<close>

definition IBMSTT_execute ::
  "(http_request \<Rightarrow> exn + response) \<Rightarrow> (string \<Rightarrow> exn + ibm_json) \<Rightarrow> token_stt \<Rightarrow> audio
   \<Rightarrow> string option \<Rightarrow> token_stt \<times> (exn + string option)" where
  "IBMSTT_execute post json_loads self a language =
     (if token self = [] then
        (self, Inl (ValueError ''API key (token) for IBM Cloud is not defined.''))
      else
        let url_base = (case config self ''url'' of None \<Rightarrow> [] | Some u \<Rightarrow> u) in
        if url_base = [] then
          (self, Inl (ValueError ''URL for IBM Cloud is not defined.''))
        else
          let url = url_base @ ''/v1/recognize'';
              self1 = self\<lparr>lang := py_or language (lang self)\<rparr>
          in if lang self1 \<notin> set ibm_supported_languages then
               (self1, Inl (ValueError (''Unsupported language '' @ [CHR 0x22] @ lang self1
                                        @ [CHR 0x22] @ '' for IBM STT.'')))
             else
               let audio_model =
                     (if sample_rate a < 16000 \<and> lang self1 \<noteq> ''ar-AR''
                      then ''NarrowbandModel'' else ''BroadbandModel'');
                   request =
                     \<lparr>req_url = url,
                      req_auth = Some (''apikey'', token self1),
                      req_headers = [(''Content-Type'', ''audio/x-flac''),
                                     (''X-Watson-Learning-Opt-Out'', ''true'')],
                      req_params = [(''model'', lang self1 @ ''_'' @ audio_model),
                                    (''profanity_filter'', ''false'')],
                      req_data = FlacData a None\<rparr>
               in (self1, case post request of
                            Inl e \<Rightarrow> Inl e
                          | Inr r \<Rightarrow> ibm_response json_loads r))"

subsection \<open>YandexSTT\<close>

record yandex_stt = stt +
  api_key :: string

definition YandexSTT_init :: "core_config \<Rightarrow> exn + yandex_stt" where
  "YandexSTT_init cc =
     (case cfg_credential cc ''api_key'' of
        None \<Rightarrow> Inl (ValueError ''API key for Yandex STT is not defined'')
      | Some k \<Rightarrow>
          Inr \<lparr>lang = py_or (cfg_module cc ''lang'') (init_language (cfg_lang cc)),
               config = cfg_module cc,
               credential = cfg_credential cc,
               api_key = k\<rparr>)"

record yandex_json =
  y_error_code :: "string option"
  y_result :: "string option"

definition supported_sample_rates :: "int list" where
  "supported_sample_rates = [8000, 16000, 48000]"

text \<open>The selection of the sample rate sent to Yandex, from the rate of the audio.\<close>

definition yandex_sample_rate :: "int \<Rightarrow> int" where
  "yandex_sample_rate rate =
     (if rate \<in> set supported_sample_rates then rate
      else
        let sr = (case find (\<lambda>s. rate < s) supported_sample_rates of
                    None \<Rightarrow> rate
                  | Some s \<Rightarrow> s)
        in if sr \<notin> set supported_sample_rates then last supported_sample_rates else sr)"

definition yandex_response ::
  "(string \<Rightarrow> exn + yandex_json) \<Rightarrow> response \<Rightarrow> exn + string option" where
  "yandex_response json_loads r =
     (if status_code r = 200 then
        (case json_loads (resp_text r) of
           Inl e \<Rightarrow> Inl e
         | Inr result \<Rightarrow> if y_error_code result = None then Inr (y_result result) else Inr None)
      else if status_code r = 401 then Inl (Exception ''Invalid API key for Yandex STT'')
      else Inl (Exception (''Request to Yandex STT failed: code: '' @ str_int (status_code r)
                           @ '', body: '' @ resp_text r)))"

definition YandexSTT_execute ::
  "(http_request \<Rightarrow> exn + response) \<Rightarrow> (string \<Rightarrow> exn + yandex_json) \<Rightarrow> yandex_stt \<Rightarrow> audio
   \<Rightarrow> string option \<Rightarrow> yandex_stt \<times> (exn + string option)" where
  "YandexSTT_execute post json_loads self a language =
     (let self1 = self\<lparr>lang := py_or language (lang self)\<rparr>
      in if lang self1 \<notin> set [''en-US'', ''ru-RU'', ''tr-TR''] then
           (self1, Inl (ValueError (''Unsupported language '' @ [CHR 0x27] @ lang self1
                                    @ [CHR 0x27] @ '' for Yandex STT'')))
         else
           let rate = yandex_sample_rate (sample_rate a);
               raw_data = RawData a (Some rate) (Some 2);
               url = ''https://stt.api.cloud.yandex.net/speech/v1/stt:recognize'';
               headers = [(''Authorization'', ''Api-Key '' @ api_key self1)];
               params = py_join ''&'' [''lang='' @ lang self1, ''format=lpcm'',
                                       ''sampleRateHertz='' @ str_int rate];
               request = \<lparr>req_url = url @ ''?'' @ params, req_auth = None,
                          req_headers = headers, req_params = [], req_data = raw_data\<rparr>
           in (self1, case post request of
                        Inl e \<Rightarrow> Inl e
                      | Inr r \<Rightarrow> yandex_response json_loads r))"

subsection \<open>StreamThread: the worker\<close>

text \<open>
  An item of the queue is a chunk, or \<open>None\<close>, the end-of-stream marker. A queue is the
  list of the items put and not yet taken, oldest first (\<open>Queue()\<close> is unbounded and
  first-in first-out: \<open>put\<close> appends and never blocks, \<open>get\<close> takes the head and blocks
  while the list is empty).

  One round of the loop of \<open>_get_data\<close>: it blocks on an empty queue, stops on the marker,
  and yields a chunk otherwise.
\<close>

datatype 'c gen_step = Blocked | Stopped "'c option list" | Yielded 'c "'c option list"

fun get_step :: "'c option list \<Rightarrow> 'c gen_step" where
  "get_step [] = Blocked"
| "get_step (None # q) = Stopped q"
| "get_step (Some d # q) = Yielded d q"

text \<open>
  The generator \<open>_get_data\<close> iterated until it ends, on a queue that receives nothing
  more: the chunks yielded, the items obtained by \<open>queue.get()\<close> in order, and what is
  left in the queue. The result is \<open>None\<close> when the loop blocks for ever on the empty
  queue.
\<close>

function get_data :: "'c option list \<Rightarrow> ('c list \<times> 'c option list \<times> 'c option list) option" where
  "get_data q =
     (case get_step q of
        Blocked \<Rightarrow> None
      | Stopped q' \<Rightarrow> Some ([], [None], q')
      | Yielded d q' \<Rightarrow>
          (case get_data q' of
             None \<Rightarrow> None
           | Some (ys, obs, rest) \<Rightarrow> Some (d # ys, Some d # obs, rest)))"
  by pat_completeness auto
termination
proof (relation "measure length")
  show "wf (measure length)" by simp
next
  fix q :: "'c option list" and d q'
  assume "get_step q = Yielded d q'"
  then show "(q', q) \<in> measure length"
    by (cases q rule: get_step.cases) auto
qed

declare get_data.simps [simp del]

text \<open>
  How \<open>handle_audio_stream\<close> ends when it ends: the value of \<open>self.text\<close> at that point,
  and the exception it raised, if any.
\<close>

datatype fin = Fin (fin_text: "string option") (fin_raised: "exn option")

text \<open>
  A call that is handed the generator \<open>audio\<close> and reads it as it goes: the abstract
  method \<open>handle_audio_stream(audio, language)\<close>, and the transports it hands the generator
  to. After the chunks \<open>seen\<close> it asks for the next one (\<open>More\<close>), or ends with a result
  without reading further (\<open>Done\<close>: it returns or raises), or never ends (\<open>Never\<close>: no
  call of the module sets a timeout, so a transport that gets no answer waits for ever).
  \<open>on_end seen\<close> is its result once the generator is exhausted, \<open>None\<close> when it never
  ends.
\<close>

datatype 'r react = More | Done 'r | Never

record ('c, 'r) reader =
  on_chunks :: "'c list \<Rightarrow> 'r react"
  on_end :: "'c list \<Rightarrow> 'r option"

type_synonym 'c handler = "('c, fin) reader"

text \<open>
  How a worker thread fares: its handler ended (the thread is over and a join on it
  returns), its handler never ends, or it waits for ever in \<open>queue.get()\<close> on an empty
  queue. In the last two cases a join on the thread never returns.
\<close>

datatype ending = Ended fin | Hung | Waiting

text \<open>
  \<open>StreamThread.run\<close> on a queue that receives nothing more: how the thread fares, the
  items the loop of \<open>_get_data\<close> obtained from the queue, in order, and what is left in
  the queue. An exception raised by the handler ends the thread; it is not passed to the
  thread that joins.
\<close>

function run :: "'c handler \<Rightarrow> 'c list \<Rightarrow> 'c option list
                 \<Rightarrow> ending \<times> 'c option list \<times> 'c option list" where
  "run h seen q =
     (case on_chunks h seen of
        Done f \<Rightarrow> (Ended f, [], q)
      | Never \<Rightarrow> (Hung, [], q)
      | More \<Rightarrow>
          (case get_step q of
             Blocked \<Rightarrow> (Waiting, [], [])
           | Stopped q' \<Rightarrow>
               ((case on_end h seen of None \<Rightarrow> Hung | Some f \<Rightarrow> Ended f), [None], q')
           | Yielded d q' \<Rightarrow>
               (case run h (seen @ [d]) q' of
                  (e, obs, rest) \<Rightarrow> (e, Some d # obs, rest))))"
  by pat_completeness auto
termination
proof (relation "measure (\<lambda>(h, seen, q). length q)")
  show "wf (measure (\<lambda>(h :: 'c handler, seen :: 'c list, q :: 'c option list). length q))"
    by simp
next
  fix h :: "'c handler" and seen :: "'c list" and q :: "'c option list" and d q'
  assume "get_step q = Yielded d q'"
  then show "((h, seen @ [d], q'), (h, seen, q)) \<in> measure (\<lambda>(h, seen, q). length q)"
    by (cases q rule: get_step.cases) auto
qed

declare run.simps [simp del]

text \<open>
  The worker beside its caller. The caller thread still has the items \<open>pending\<close> to put;
  the queue holds what was put and not taken; \<open>taken\<close> lists what the worker obtained;
  the worker is running, having yielded the chunks \<open>seen\<close> to its handler, or has halted
  (its handler ended, or never will). A step is a put of the caller or a move of the
  worker, in any interleaving. \<open>run\<close> above is the worker on its own once every item has
  been put; \<open>outcome\<close> is what \<open>run\<close> gives for the rest of a configuration.
\<close>

datatype 'c wstatus = Running "'c list" | Halted ending

type_synonym 'c conf = "'c option list \<times> 'c option list \<times> 'c option list \<times> 'c wstatus"

inductive step :: "'c handler \<Rightarrow> 'c conf \<Rightarrow> 'c conf \<Rightarrow> bool" for h :: "'c handler" where
  caller_puts: "step h (x # pending, q, taken, w) (pending, q @ [x], taken, w)"
| worker_ends:
    "on_chunks h seen = Done f \<Longrightarrow>
     step h (pending, q, taken, Running seen) (pending, q, taken, Halted (Ended f))"
| worker_hangs:
    "on_chunks h seen = Never \<Longrightarrow>
     step h (pending, q, taken, Running seen) (pending, q, taken, Halted Hung)"
| worker_gets_chunk:
    "on_chunks h seen = More \<Longrightarrow>
     step h (pending, Some d # q, taken, Running seen)
            (pending, q, taken @ [Some d], Running (seen @ [d]))"
| worker_gets_marker:
    "on_chunks h seen = More \<Longrightarrow>
     step h (pending, None # q, taken, Running seen)
            (pending, q, taken @ [None],
             Halted (case on_end h seen of None \<Rightarrow> Hung | Some f \<Rightarrow> Ended f))"

fun outcome :: "'c handler \<Rightarrow> 'c conf \<Rightarrow> ending \<times> 'c option list \<times> 'c option list" where
  "outcome h (pending, q, taken, Running seen) =
     (case run h seen (q @ pending) of (e, obs, rest) \<Rightarrow> (e, taken @ obs, rest))"
| "outcome h (pending, q, taken, Halted e) = (e, taken, q @ pending)"

text \<open>
  A thread object: the fields set by \<open>StreamThread.__init__\<close> and the behaviour of its
  \<open>handle_audio_stream\<close>. The queue is held by reference, as the address of the queue
  object.
\<close>

record 'c stream_thread =
  t_language :: string
  t_queue :: nat
  t_text :: "string option"
  t_handler :: "'c handler"

definition StreamThread_init :: "nat \<Rightarrow> string \<Rightarrow> 'c handler \<Rightarrow> 'c stream_thread" where
  "StreamThread_init q language h =
     \<lparr>t_language = language, t_queue = q, t_text = None, t_handler = h\<rparr>"

subsection \<open>The two thread classes of the module\<close>

text \<open>
  \<open>DeepSpeechStreamThread.handle_audio_stream\<close>. \<open>post(url, data=audio, stream=True)\<close>
  is handed the generator: it reads chunks and answers with a response, or raises,
  before, while or after reading, or never answers. Its result, if it has one, is the
  response or the exception. When it raises, \<open>self.text\<close> keeps the \<open>None\<close> of
  \<open>StreamThread.__init__\<close>; otherwise \<open>self.text\<close> is the body of a truthy response, and
  \<open>None\<close> for another. A response is truthy when its status is no client or server
  error.
\<close>

definition resp_ok :: "response \<Rightarrow> bool" where
  "resp_ok r = (\<not> (400 \<le> status_code r \<and> status_code r < 600))"

definition DeepSpeech_text :: "exn + response \<Rightarrow> fin" where
  "DeepSpeech_text res =
     (case res of
        Inl e \<Rightarrow> Fin None (Some e)
      | Inr r \<Rightarrow> Fin (if resp_ok r then Some (resp_text r) else None) None)"

definition DeepSpeech_handle_audio_stream ::
  "(string option \<Rightarrow> ('c, exn + response) reader) \<Rightarrow> string option \<Rightarrow> 'c handler" where
  "DeepSpeech_handle_audio_stream post url =
     \<lparr>on_chunks = (\<lambda>seen. map_react DeepSpeech_text (on_chunks (post url) seen)),
      on_end = (\<lambda>seen. map_option DeepSpeech_text (on_end (post url) seen))\<rparr>"

fun startswith :: "string \<Rightarrow> string \<Rightarrow> bool" where
  "startswith s [] = True"
| "startswith [] (p # ps) = False"
| "startswith (c # cs) (p # ps) = (c = p \<and> startswith cs ps)"

text \<open>
  \<open>GoogleStreamThread.handle_audio_stream\<close>. A response of the service is the list of its
  results; a result says whether it is final and lists the transcripts of its
  alternatives. The iterator \<open>responses\<close> gives responses and may raise.
\<close>

record speech_result =
  is_final :: bool
  alternatives :: "string list"

datatype speech_event = Response "speech_result list" | StreamError exn

text \<open>The loop \<open>for res in responses\<close>, from the current value of \<open>self.text\<close>.\<close>

fun google_responses :: "string option \<Rightarrow> speech_event list \<Rightarrow> fin" where
  "google_responses txt [] = Fin txt None"
| "google_responses txt (StreamError e # evs) = Fin txt (Some e)"
| "google_responses txt (Response results # evs) =
     (if results \<noteq> [] \<and> is_final (hd results)
      then (case alternatives (hd results) of
              [] \<Rightarrow> Fin txt (Some IndexError)
            | tr # trs \<Rightarrow> google_responses (Some tr) evs)
      else google_responses txt evs)"

text \<open>
  The first argument is \<open>client.streaming_recognize\<close> with the streaming configuration,
  handed the generator of requests made from \<open>audio\<close>. The client reads chunks while the
  loop over \<open>responses\<close> goes on; the loop ends when the iterator is exhausted or raises,
  before or after the generator is read to its end, or never ends. The result of the
  client, if it has one, is the list of the events the iterator gave.
\<close>

definition Google_handle_audio_stream :: "('c, speech_event list) reader \<Rightarrow> 'c handler" where
  "Google_handle_audio_stream streaming_recognize =
     \<lparr>on_chunks = (\<lambda>seen. map_react (google_responses None) (on_chunks streaming_recognize seen)),
      on_end = (\<lambda>seen. map_option (google_responses None) (on_end streaming_recognize seen))\<rparr>"

subsection \<open>StreamingSTT\<close>

text \<open>
  A streaming backend with the objects it shares with its worker. \<open>stream\<close> and \<open>queue\<close>
  are the attributes of the instance (\<open>queue\<close> holds the address of a queue object, and is
  \<open>None\<close> also before the first \<open>stream_start\<close>, when the attribute does not exist yet).
  \<open>store\<close> gives the content of the queue object at each address and \<open>fresh\<close> is the next
  unused address. \<open>live\<close> lists the worker threads that have been started and not yet
  joined, each named by the address of its queue.
\<close>

record 'c streaming = stt +
  stream :: "'c stream_thread option"
  queue :: "nat option"
  store :: "nat \<Rightarrow> 'c option list"
  fresh :: nat
  live :: "nat list"

definition StreamingSTT_init :: "core_config \<Rightarrow> 'c streaming" where
  "StreamingSTT_init cc =
     \<lparr>lang = init_language (cfg_lang cc),
      config = cfg_module cc,
      credential = cfg_credential cc,
      stream = None,
      queue = None,
      store = (\<lambda>a. []),
      fresh = 0,
      live = []\<rparr>"

text \<open>\<open>self.queue = Queue()\<close>: a new empty queue object.\<close>

definition new_queue :: "'c streaming \<Rightarrow> 'c streaming" where
  "new_queue self =
     self\<lparr>queue := Some (fresh self),
          store := (store self)(fresh self := []),
          fresh := Suc (fresh self)\<rparr>"

text \<open>\<open>q.put(x)\<close> on the queue object at an address.\<close>

definition put :: "nat \<Rightarrow> 'c option \<Rightarrow> 'c streaming \<Rightarrow> 'c streaming" where
  "put a x self = self\<lparr>store := (store self)(a := store self a @ [x])\<rparr>"

text \<open>
  What a backend class and its thread class add to \<open>StreamingSTT\<close> and \<open>StreamThread\<close>:
  from \<open>self.lang\<close> and \<open>self.config\<close>, either the exception the thread constructor
  raises before it calls \<open>StreamThread.__init__\<close>, or the language it passes on and its
  \<open>handle_audio_stream\<close>.
\<close>

type_synonym 'c thread_class =
  "string \<Rightarrow> (string \<rightharpoonup> string) \<Rightarrow> exn + (string \<times> 'c handler)"

text \<open>
  \<open>DeepSpeechStreamServerSTT\<close> with \<open>DeepSpeechStreamThread\<close>: the thread is given
  \<open>self.lang\<close> and the configured \<open>stream_uri\<close>; its constructor refuses a language that
  does not start with \<open>en\<close>.
\<close>

definition DeepSpeechStreamServerSTT ::
  "(string option \<Rightarrow> ('c, exn + response) reader) \<Rightarrow> 'c thread_class" where
  "DeepSpeechStreamServerSTT post language cfg =
     (if \<not> startswith language ''en''
      then Inl (ValueError ''Deepspeech is currently english only'')
      else Inr (language, DeepSpeech_handle_audio_stream post (cfg ''stream_uri'')))"

text \<open>
  \<open>GoogleCloudStreamingSTT\<close> with \<open>GoogleStreamThread\<close>: the thread is given
  \<open>self.language\<close>, which the constructor of the backend sets to
  \<open>self.config.get('lang') or self.lang\<close>; no method changes \<open>lang\<close> or \<open>config\<close>
  afterwards.
\<close>

definition GoogleCloudStreamingSTT ::
  "('c, speech_event list) reader \<Rightarrow> 'c thread_class" where
  "GoogleCloudStreamingSTT streaming_recognize l cfg =
     Inr (py_or (cfg ''lang'') l, Google_handle_audio_stream streaming_recognize)"

text \<open>
  \<open>create_streaming_thread\<close>, written the same way in both backend classes: a new queue
  is stored in \<open>self.queue\<close> and handed to the thread constructed.
\<close>

definition create_streaming_thread ::
  "'c thread_class \<Rightarrow> 'c streaming \<Rightarrow> 'c streaming \<times> (exn + 'c stream_thread)" where
  "create_streaming_thread cls self =
     (let self1 = new_queue self
      in (self1, case cls (lang self1) (config self1) of
                   Inl e \<Rightarrow> Inl e
                 | Inr (language, h) \<Rightarrow>
                     Inr (StreamThread_init (the (queue self1)) language h)))"

text \<open>
  \<open>stream_stop\<close>. The result is \<open>None\<close> when the call never returns: \<open>self.stream.join()\<close>
  has no timeout and waits as long as the worker has not ended. The worker has been
  running beside the caller since \<open>stream_start\<close>; the model keeps every item in the
  queue until the join and runs the worker there, on a queue that receives nothing
  more, which gives what every interleaving of \<open>step\<close> gives. \<open>queue.task_done()\<close> only
  counts for \<open>Queue.join\<close>, which nothing calls. \<open>self.queue.put(None)\<close> raises
  \<open>AttributeError\<close> when \<open>self.queue\<close> is \<open>None\<close>.
\<close>

definition stream_stop ::
  "'c streaming \<Rightarrow> ('c streaming \<times> (exn + string option)) option" where
  "stream_stop self =
     (case stream self of
        None \<Rightarrow> Some (self, Inr None)
      | Some t \<Rightarrow>
          (case queue self of
             None \<Rightarrow> Some (self, Inl AttributeError)
           | Some a \<Rightarrow>
               (let self1 = put a None self
                in case run (t_handler t) [] (store self1 (t_queue t)) of
                     (Hung, obs, rest) \<Rightarrow> None
                   | (Waiting, obs, rest) \<Rightarrow> None
                   | (Ended f, obs, rest) \<Rightarrow>
                       (let t1 = t\<lparr>t_text := fin_text f\<rparr>;
                            self2 = self1\<lparr>store := (store self1)(t_queue t := rest),
                                         live := remove1 (t_queue t) (live self1)\<rparr>;
                            text = t_text t1
                        in Some (self2\<lparr>stream := None, queue := None\<rparr>, Inr text)))))"

text \<open>
  \<open>stream_start\<close>. The language argument is resolved and then not used. An exception of
  \<open>create_streaming_thread\<close> leaves \<open>self.stream\<close> as \<open>stream_stop\<close> left it.
\<close>

definition stream_start ::
  "'c thread_class \<Rightarrow> 'c streaming \<Rightarrow> string option \<Rightarrow> ('c streaming \<times> (exn + unit)) option" where
  "stream_start cls self language =
     (case stream_stop self of
        None \<Rightarrow> None
      | Some (self1, Inl e) \<Rightarrow> Some (self1, Inl e)
      | Some (self1, Inr r) \<Rightarrow>
          (let language1 = py_or language (lang self1);
               self2 = new_queue self1
           in case create_streaming_thread cls self2 of
                (self3, Inl e) \<Rightarrow> Some (self3, Inl e)
              | (self3, Inr t) \<Rightarrow>
                  Some (self3\<lparr>stream := Some t, live := t_queue t # live self3\<rparr>, Inr ())))"

text \<open>\<open>stream_data\<close>; the argument is whatever the caller passes, a chunk or \<open>None\<close>.\<close>

definition stream_data :: "'c streaming \<Rightarrow> 'c option \<Rightarrow> 'c streaming \<times> (exn + unit)" where
  "stream_data self d =
     (case queue self of
        None \<Rightarrow> (self, Inl AttributeError)
      | Some a \<Rightarrow> (put a d self, Inr ()))"

text \<open>\<open>StreamingSTT.execute\<close>.\<close>

definition execute ::
  "'c streaming \<Rightarrow> audio \<Rightarrow> string option \<Rightarrow> ('c streaming \<times> (exn + string option)) option" where
  "execute self a language = stream_stop self"

text \<open>The states a backend of a class reaches from its construction by calls of its methods.\<close>

inductive reachable :: "'c thread_class \<Rightarrow> 'c streaming \<Rightarrow> bool" for cls :: "'c thread_class" where
  constructed: "reachable cls (StreamingSTT_init cc)"
| started: "reachable cls s \<Longrightarrow> stream_start cls s language = Some (s', r) \<Longrightarrow> reachable cls s'"
| fed: "reachable cls s \<Longrightarrow> stream_data s d = (s', r') \<Longrightarrow> reachable cls s'"
| stopped: "reachable cls s \<Longrightarrow> stream_stop s = Some (s', r'') \<Longrightarrow> reachable cls s'"
| executed: "reachable cls s \<Longrightarrow> execute s a language = Some (s', r'') \<Longrightarrow> reachable cls s'"

text \<open>
  The invariant of the reachable states: a backend with a worker holds the queue of that
  worker, and the worker is the only thread started and not joined; a backend without a
  worker has no such thread.
\<close>

definition wf_state :: "'c streaming \<Rightarrow> bool" where
  "wf_state s =
     (case stream s of
        None \<Rightarrow> live s = []
      | Some t \<Rightarrow> queue s = Some (t_queue t) \<and> live s = [t_queue t])"

section \<open>Properties\<close>

subsection \<open>Language normalisation\<close>

lemma split_dash_no_dash: "CHR ''-'' \<notin> set s \<Longrightarrow> split_dash s = [s]"
  by (induction s) auto

lemma split_dash_append:
  "CHR ''-'' \<notin> set xs \<Longrightarrow> split_dash (xs @ CHR ''-'' # ys) = xs # split_dash ys"
  by (induction xs) auto

lemma split_dash_two:
  "CHR ''-'' \<notin> set xs \<Longrightarrow> CHR ''-'' \<notin> set ys \<Longrightarrow>
   split_dash (xs @ CHR ''-'' # ys) = [xs, ys]"
  by (simp add: split_dash_append split_dash_no_dash)

lemma lower_char_dash: "lower_char c = CHR ''-'' \<longleftrightarrow> c = CHR ''-''"
proof -
  have "(of_char (lower_char c) :: nat) = 45 \<longleftrightarrow> (of_char c :: nat) = 45"
    by (auto simp: lower_char_def Let_def)
  moreover have "\<And>d. (of_char d :: nat) = 45 \<longleftrightarrow> d = CHR ''-''"
  proof -
    fix d :: char
    have "(of_char d :: nat) = of_char (CHR ''-'') \<longleftrightarrow> d = CHR ''-''"
      by (rule of_char_eq_iff)
    then show "(of_char d :: nat) = 45 \<longleftrightarrow> d = CHR ''-''" by simp
  qed
  ultimately show ?thesis by simp
qed

lemma upper_char_dash: "upper_char c = CHR ''-'' \<longleftrightarrow> c = CHR ''-''"
proof -
  have "(of_char (upper_char c) :: nat) = 45 \<longleftrightarrow> (of_char c :: nat) = 45"
    by (auto simp: upper_char_def Let_def)
  moreover have "\<And>d. (of_char d :: nat) = 45 \<longleftrightarrow> d = CHR ''-''"
  proof -
    fix d :: char
    have "(of_char d :: nat) = of_char (CHR ''-'') \<longleftrightarrow> d = CHR ''-''"
      by (rule of_char_eq_iff)
    then show "(of_char d :: nat) = 45 \<longleftrightarrow> d = CHR ''-''" by simp
  qed
  ultimately show ?thesis by simp
qed

lemma py_lower_no_dash: "CHR ''-'' \<notin> set s \<Longrightarrow> CHR ''-'' \<notin> set (py_lower s)"
proof
  assume n: "CHR ''-'' \<notin> set s" and "CHR ''-'' \<in> set (py_lower s)"
  then obtain c where "c \<in> set s" and "lower_char c = CHR ''-''"
    by (auto simp: py_lower_def)
  with n show False by (simp add: lower_char_dash)
qed

lemma py_upper_no_dash: "CHR ''-'' \<notin> set s \<Longrightarrow> CHR ''-'' \<notin> set (py_upper s)"
proof
  assume n: "CHR ''-'' \<notin> set s" and "CHR ''-'' \<in> set (py_upper s)"
  then obtain c where "c \<in> set s" and "upper_char c = CHR ''-''"
    by (auto simp: py_upper_def)
  with n show False by (simp add: upper_char_dash)
qed

lemma lower_char_idem: "lower_char (lower_char c) = lower_char c"
  by (auto simp: lower_char_def Let_def)

lemma upper_char_idem: "upper_char (upper_char c) = upper_char c"
  by (auto simp: upper_char_def Let_def)

lemma py_lower_idem: "py_lower (py_lower s) = py_lower s"
  by (simp add: py_lower_def lower_char_idem)

lemma py_upper_idem: "py_upper (py_upper s) = py_upper s"
  by (simp add: py_upper_def upper_char_idem)

lemma init_language_two:
  "CHR ''-'' \<notin> set xs \<Longrightarrow> CHR ''-'' \<notin> set ys \<Longrightarrow>
   init_language (Some (xs @ ''-'' @ ys)) = py_lower xs @ ''-'' @ py_upper ys"
  by (simp add: init_language_def Let_def split_dash_two)

text \<open>
  Claim C8. For a tag \<open>xx-yy\<close> with exactly two dash-separated parts (ASCII, in any letter
  casing), \<open>init_language\<close> returns the first part lowercased, a dash and the second part
  uppercased; a tag whose region is already uppercased has the same normal form, and
  normalising the result again changes nothing.
\<close>

theorem init_language_casing:
  assumes "CHR ''-'' \<notin> set xx" and "CHR ''-'' \<notin> set yy"
    and "\<forall>c \<in> set (xx @ yy). (of_char c :: nat) < 128"
  shows "init_language (Some (xx @ ''-'' @ yy)) = py_lower xx @ ''-'' @ py_upper yy
    \<and> init_language (Some (xx @ ''-'' @ py_upper yy)) = init_language (Some (xx @ ''-'' @ yy))
    \<and> init_language (Some (init_language (Some (xx @ ''-'' @ yy))))
        = init_language (Some (xx @ ''-'' @ yy))"
proof -
  from assms(1,2) have a: "init_language (Some (xx @ ''-'' @ yy)) = py_lower xx @ ''-'' @ py_upper yy"
    by (rule init_language_two)
  from assms(1,2) have b: "init_language (Some (xx @ ''-'' @ py_upper yy))
      = py_lower xx @ ''-'' @ py_upper (py_upper yy)"
    by (intro init_language_two py_upper_no_dash)
  from assms(1,2) have c: "init_language (Some (py_lower xx @ ''-'' @ py_upper yy))
      = py_lower (py_lower xx) @ ''-'' @ py_upper (py_upper yy)"
    by (intro init_language_two py_upper_no_dash py_lower_no_dash)
  show ?thesis
    using a b c by (simp add: py_lower_idem py_upper_idem)
qed

theorem init_language_casing_witness:
  "init_language (Some ''EN-us'') = ''en-US''
   \<and> init_language (Some ''EN-US'') = init_language (Some ''EN-us'')
   \<and> init_language (Some (init_language (Some ''EN-us''))) = init_language (Some ''EN-us'')"
proof -
  have h1: "CHR ''-'' \<notin> set ''EN''" by simp
  have h2: "CHR ''-'' \<notin> set ''us''" by simp
  have h3: "\<forall>c \<in> set (''EN'' @ ''us''). (of_char c :: nat) < 128" by simp
  have l: "py_lower ''EN'' = ''en''" by code_simp
  have u: "py_upper ''us'' = ''US''" by code_simp
  have e: "init_language (Some ''en-US'') = ''en-US''" by code_simp
  show ?thesis
    using init_language_casing [OF h1 h2 h3] by (simp add: l u e)
qed

subsection \<open>The pairing wrapper\<close>

text \<open>
  Claim C4. The wrapper returns the wrapped function's result unchanged on success; an
  \<open>HTTPError\<close> whose response status is 401 is swallowed and the phrase
  \<open>'pair my device'\<close> returned; an \<open>HTTPError\<close> with any other status, and any exception
  of another class, propagates unchanged.
\<close>

theorem requires_pairing_contract:
  "(func args = Inr r \<longrightarrow> requires_pairing func args = Inr r)
   \<and> (func args = Inl (HTTPError resp) \<and> status_code resp = 401
        \<longrightarrow> requires_pairing func args = Inr ''pair my device'')
   \<and> (func args = Inl (HTTPError resp) \<and> status_code resp \<noteq> 401
        \<longrightarrow> requires_pairing func args = Inl (HTTPError resp))
   \<and> (func args = Inl e \<and> (\<forall>r'. e \<noteq> HTTPError r')
        \<longrightarrow> requires_pairing func args = Inl e)"
  by (auto simp: requires_pairing_def split: exn.splits)

theorem requires_pairing_contract_witness:
  "requires_pairing (\<lambda>u::unit. Inr ''turn on the light'') () = Inr ''turn on the light''
   \<and> requires_pairing
        (\<lambda>u::unit. Inl (HTTPError \<lparr>status_code = 401, resp_text = ''denied''\<rparr>)) ()
      = Inr ''pair my device''
   \<and> requires_pairing
        (\<lambda>u::unit. Inl (HTTPError \<lparr>status_code = 403, resp_text = ''denied''\<rparr>)) ()
      = Inl (HTTPError \<lparr>status_code = 403, resp_text = ''denied''\<rparr>)
   \<and> requires_pairing (\<lambda>u::unit. Inl (ValueError ''bad'')) () = Inl (ValueError ''bad'')"
  using
    requires_pairing_contract
      [of "\<lambda>u::unit. Inr ''turn on the light''" "()" "''turn on the light''"]
    requires_pairing_contract
      [of "\<lambda>u::unit. Inl (HTTPError \<lparr>status_code = 401, resp_text = ''denied''\<rparr>)" "()" _
          "\<lparr>status_code = 401, resp_text = ''denied''\<rparr>"]
    requires_pairing_contract
      [of "\<lambda>u::unit. Inl (HTTPError \<lparr>status_code = 403, resp_text = ''denied''\<rparr>)" "()" _
          "\<lparr>status_code = 403, resp_text = ''denied''\<rparr>"]
    requires_pairing_contract
      [of "\<lambda>u::unit. Inl (ValueError ''bad'')" "()" _ _ "ValueError ''bad''"]
  by simp

subsection \<open>The factory\<close>

lemma create_success:
  "try_body env m = Inr b \<Longrightarrow> create env (Inr (Some m)) = Inr b"
  by (simp add: create_def)

lemma create_fallback:
  "try_body env m = Inl e \<Longrightarrow> m \<noteq> MStr ''mycroft'' \<Longrightarrow>
   create env (Inr (Some m)) = construct env ''mycroft''"
  by (simp add: create_def)

lemma create_default_fails:
  "try_body env (MStr ''mycroft'') = Inl e \<Longrightarrow>
   create env (Inr (Some (MStr ''mycroft''))) = Inl e \<and> create env (Inr None) = Inl e"
  by (simp add: create_def)

lemma mycroft_builtin: "''mycroft'' \<in> set CLASSES"
  by (simp add: CLASSES_def)

text \<open>
  Claim C3, as stated, fails when the constructor of the default backend raises as well:
  with the module \<open>"does-not-exist"\<close>, a plugin loader that raises and a default
  constructor that raises, \<open>create\<close> raises the default constructor's exception instead
  of returning a backend.
\<close>

theorem create_fallback_counterexample:
  "create \<lparr>construct = (\<lambda>n. Inl (Exception ''no backend server'')),
           load_stt_plugin = (\<lambda>n. Inl (OtherError ''plugin not found''))\<rparr>
          (Inr (Some (MStr ''does-not-exist'')))
   = (Inl (Exception ''no backend server'') :: exn + unit)"
  by (simp add: create_def try_body_def CLASSES_def)

text \<open>
  Claim C3, amended. \<open>create\<close> resolves the configured module in the built-in table
  first and through the plugin loader otherwise, and calls the class found. When that
  succeeds the backend is returned. When it raises and the module is not \<open>"mycroft"\<close>,
  the result is that of constructing the default backend: the new backend, or the
  exception of that construction. When the module is \<open>"mycroft"\<close> (configured, or taken
  by default) and it fails, the original exception propagates.
\<close>

theorem create_contract:
  "(name \<in> set CLASSES \<longrightarrow> try_body env (MStr name) = construct env name)
   \<and> (name \<notin> set CLASSES \<longrightarrow>
        try_body env (MStr name)
          = (case load_stt_plugin env name of Inl e' \<Rightarrow> Inl e' | Inr clazz \<Rightarrow> clazz))
   \<and> (try_body env m = Inr b \<longrightarrow> create env (Inr (Some m)) = Inr b)
   \<and> (try_body env m = Inl e \<and> m \<noteq> MStr ''mycroft''
        \<longrightarrow> create env (Inr (Some m)) = construct env ''mycroft'')
   \<and> (construct env ''mycroft'' = Inl e
        \<longrightarrow> create env (Inr (Some (MStr ''mycroft''))) = Inl e \<and> create env (Inr None) = Inl e)"
proof -
  have "construct env ''mycroft'' = Inl e \<Longrightarrow> try_body env (MStr ''mycroft'') = Inl e"
    by (simp add: try_body_def mycroft_builtin)
  then show ?thesis
    using create_success [of env m b] create_fallback [of env m e]
      create_default_fails [of env e]
    by (auto simp: try_body_def)
qed

theorem create_contract_witness:
  "create \<lparr>construct = (\<lambda>n. if n = ''mycroft'' then Inr ''MycroftSTT''
                                 else Inl (Exception ''cannot start'')),
           load_stt_plugin = (\<lambda>n. Inl (OtherError ''plugin not found''))\<rparr>
          (Inr (Some (MStr ''google''))) = Inr ''MycroftSTT''
   \<and> create \<lparr>construct = (\<lambda>n. Inl (Exception ''cannot start'')),
              load_stt_plugin = (\<lambda>n. Inl (OtherError ''plugin not found''))\<rparr>
          (Inr None) = (Inl (Exception ''cannot start'') :: exn + string)"
proof -
  let ?env1 = "\<lparr>construct = (\<lambda>n. if n = ''mycroft'' then Inr ''MycroftSTT''
                                   else Inl (Exception ''cannot start'')),
                 load_stt_plugin = (\<lambda>n. Inl (OtherError ''plugin not found''))\<rparr>"
  let ?env2 = "\<lparr>construct = (\<lambda>n. Inl (Exception ''cannot start'')),
                 load_stt_plugin = (\<lambda>n. Inl (OtherError ''plugin not found''))\<rparr>
               :: string factory_env"
  have h1: "try_body ?env1 (MStr ''google'') = Inl (Exception ''cannot start'')"
    by (simp add: try_body_def CLASSES_def)
  have h2: "MStr ''google'' \<noteq> MStr ''mycroft''" by simp
  have h3: "construct ?env2 ''mycroft'' = Inl (Exception ''cannot start'')" by simp
  have c1: "construct ?env1 ''mycroft'' = Inr ''MycroftSTT''" by simp
  from create_contract [of _ ?env1 "MStr ''google''" _ "Exception ''cannot start''"] h1 h2 c1
  have a: "create ?env1 (Inr (Some (MStr ''google''))) = Inr ''MycroftSTT''"
    by simp
  from create_contract [of _ ?env2 _ _ "Exception ''cannot start''"] h3
  have b: "create ?env2 (Inr None) = Inl (Exception ''cannot start'')"
    by simp
  from a b show ?thesis by simp
qed

subsection \<open>Token credentials\<close>

text \<open>
  Claim C5, as stated, fails: a \<open>GoogleSTT\<close> constructed from a configuration with no
  token is constructed without error, its token field is the string \<open>'None'\<close>, and
  \<open>execute\<close> calls the recognizer with that key. Here the recognizer answers with the key
  it was given.
\<close>

theorem token_missing_counterexample:
  "token (TokenSTT_init \<lparr>cfg_lang = None, cfg_module = Map.empty,
                          cfg_credential = Map.empty\<rparr>) = ''None''
   \<and> snd (GoogleSTT_execute (\<lambda>a key language. Inr key)
            (TokenSTT_init \<lparr>cfg_lang = None, cfg_module = Map.empty,
                             cfg_credential = Map.empty\<rparr>)
            \<lparr>sample_rate = 16000, frame_data = []\<rparr> None) = Inr ''None''"
  by (simp add: TokenSTT_init_def GoogleSTT_execute_def py_str_def Let_def)

text \<open>
  Claim C5, amended. Constructing a token backend raises nothing on a missing or empty
  token: the token field is \<open>str\<close> of the configured value, \<open>'None'\<close> when it is missing
  and the empty string when it is empty. \<open>GoogleSTT.execute\<close> checks nothing and calls the
  recognizer with the stored token. \<open>IBMSTT.execute\<close> with an empty stored token raises
  \<open>ValueError\<close> before any request and leaves the instance as it was.
\<close>

theorem token_credential_handling:
  "token (TokenSTT_init cc) = py_str (cfg_credential cc ''token'')
   \<and> (cfg_credential cc ''token'' = None \<longrightarrow> token (TokenSTT_init cc) = ''None'')
   \<and> (cfg_credential cc ''token'' = Some [] \<longrightarrow> token (TokenSTT_init cc) = [])
   \<and> snd (GoogleSTT_execute recognize_google self a language)
       = recognize_google a (token self) (py_or language (lang self))
   \<and> (token self = [] \<longrightarrow>
        IBMSTT_execute post json_loads self a language
          = (self, Inl (ValueError ''API key (token) for IBM Cloud is not defined.'')))"
  by (simp add: TokenSTT_init_def GoogleSTT_execute_def IBMSTT_execute_def py_str_def Let_def)

theorem token_credential_handling_witness:
  "token (TokenSTT_init \<lparr>cfg_lang = None, cfg_module = Map.empty,
                          cfg_credential = Map.empty\<rparr>) = ''None''
   \<and> token (TokenSTT_init \<lparr>cfg_lang = None, cfg_module = Map.empty,
                            cfg_credential = [''token'' \<mapsto> []]\<rparr>) = []
   \<and> IBMSTT_execute (\<lambda>r. Inl (OtherError ''unreachable'')) (\<lambda>s. Inl (OtherError ''unreachable''))
        (TokenSTT_init \<lparr>cfg_lang = None, cfg_module = Map.empty,
                         cfg_credential = [''token'' \<mapsto> []]\<rparr>)
        \<lparr>sample_rate = 16000, frame_data = []\<rparr> None
      = (TokenSTT_init \<lparr>cfg_lang = None, cfg_module = Map.empty,
                         cfg_credential = [''token'' \<mapsto> []]\<rparr>,
         Inl (ValueError ''API key (token) for IBM Cloud is not defined.''))"
proof -
  let ?c0 = "\<lparr>cfg_lang = None, cfg_module = Map.empty, cfg_credential = Map.empty\<rparr>"
  let ?c1 = "\<lparr>cfg_lang = None, cfg_module = Map.empty, cfg_credential = [''token'' \<mapsto> []]\<rparr>"
  have h0: "cfg_credential ?c0 ''token'' = None" by simp
  have h1: "cfg_credential ?c1 ''token'' = Some []" by simp
  from token_credential_handling [where cc = ?c0] h0
  have a: "token (TokenSTT_init ?c0) = ''None''" by blast
  from token_credential_handling [where cc = ?c1] h1
  have b: "token (TokenSTT_init ?c1) = []" by blast
  from token_credential_handling
         [where cc = ?c1 and self = "TokenSTT_init ?c1"
            and post = "\<lambda>r. Inl (OtherError ''unreachable'')"
            and json_loads = "\<lambda>s. Inl (OtherError ''unreachable'')"
            and a = "\<lparr>sample_rate = 16000, frame_data = []\<rparr>" and language = None] b
  have c: "IBMSTT_execute (\<lambda>r. Inl (OtherError ''unreachable''))
             (\<lambda>s. Inl (OtherError ''unreachable'')) (TokenSTT_init ?c1)
             \<lparr>sample_rate = 16000, frame_data = []\<rparr> None
           = (TokenSTT_init ?c1,
              Inl (ValueError ''API key (token) for IBM Cloud is not defined.''))"
    by blast
  from a b c show ?thesis by blast
qed

subsection \<open>The language override of execute\<close>

text \<open>
  Claim C10, as stated, fails in two ways. The assignment is \<open>self.lang = language or
  self.lang\<close>, so the empty string, which is not \<open>None\<close>, leaves the stored language as it
  was; and \<open>IBMSTT.execute\<close> raises on an unconfigured URL (or an empty token) before the
  assignment is reached, so the override is not stored.
\<close>

theorem language_override_counterexample:
  "lang (fst (GoogleSTT_execute (\<lambda>a key language. Inr language)
                \<lparr>lang = ''en-US'', config = Map.empty, credential = Map.empty,
                  token = ''k''\<rparr>
                \<lparr>sample_rate = 16000, frame_data = []\<rparr> (Some ''''))) = ''en-US''
   \<and> lang (fst (IBMSTT_execute (\<lambda>r. Inl (OtherError ''unreachable''))
                   (\<lambda>s. Inl (OtherError ''unreachable''))
                   \<lparr>lang = ''en-US'', config = Map.empty, credential = Map.empty,
                     token = ''k''\<rparr>
                   \<lparr>sample_rate = 16000, frame_data = []\<rparr> (Some ''fr-FR''))) = ''en-US''"
  by (simp add: GoogleSTT_execute_def IBMSTT_execute_def py_or_def Let_def)

lemma GoogleSTT_override:
  "l \<noteq> [] \<Longrightarrow> lang (fst (GoogleSTT_execute rg self a (Some l))) = l"
  by (simp add: GoogleSTT_execute_def Let_def py_or_def)

lemma GoogleSTT_next_call:
  "GoogleSTT_execute rg self a None = (self, rg a (token self) (lang self))"
  by (simp add: GoogleSTT_execute_def Let_def py_or_def)

lemma YandexSTT_override:
  "l \<noteq> [] \<Longrightarrow> lang (fst (YandexSTT_execute post jl self a (Some l))) = l"
  by (simp add: YandexSTT_execute_def Let_def py_or_def)

lemma YandexSTT_keeps:
  "lang (fst (YandexSTT_execute post jl self a None)) = lang self"
  by (simp add: YandexSTT_execute_def Let_def py_or_def)

lemma IBMSTT_override:
  "l \<noteq> [] \<Longrightarrow> token self \<noteq> [] \<Longrightarrow> config self ''url'' = Some u \<Longrightarrow> u \<noteq> [] \<Longrightarrow>
   lang (fst (IBMSTT_execute post jl self a (Some l))) = l"
  by (simp add: IBMSTT_execute_def Let_def py_or_def)

lemma IBMSTT_keeps:
  "lang (fst (IBMSTT_execute post jl self a None)) = lang self"
  by (simp add: IBMSTT_execute_def Let_def py_or_def)

lemma YandexSTT_same:
  "l \<noteq> [] \<Longrightarrow> lang self = l \<Longrightarrow>
   YandexSTT_execute post jl self a None = YandexSTT_execute post jl self a (Some l)"
  by (simp add: YandexSTT_execute_def Let_def py_or_def)

lemma IBMSTT_same:
  "l \<noteq> [] \<Longrightarrow> lang self = l \<Longrightarrow>
   IBMSTT_execute post jl self a None = IBMSTT_execute post jl self a (Some l)"
  by (simp add: IBMSTT_execute_def Let_def py_or_def)

text \<open>
  Claim C10, amended. For \<open>GoogleSTT\<close>, \<open>YandexSTT\<close> and \<open>IBMSTT\<close>, \<open>execute\<close> called with a
  non-empty language stores it in the language field of the instance, whatever the call
  then returns or raises; for \<open>IBMSTT\<close> this needs a non-empty token and a configured URL,
  which are checked before the assignment. The stored value stays: a following call
  without a language keeps it and does what a call with that language does (for
  \<open>GoogleSTT\<close>, it calls the recognizer with it).
\<close>

theorem language_override:
  assumes "l \<noteq> []"
  shows "lang (fst (GoogleSTT_execute rg g a (Some l))) = l
    \<and> GoogleSTT_execute rg (fst (GoogleSTT_execute rg g a (Some l))) b None
        = (fst (GoogleSTT_execute rg g a (Some l)), rg b (token g) l)
    \<and> lang (fst (YandexSTT_execute post jy y a (Some l))) = l
    \<and> lang (fst (YandexSTT_execute post jy (fst (YandexSTT_execute post jy y a (Some l))) b None))
        = l
    \<and> YandexSTT_execute post jy (fst (YandexSTT_execute post jy y a (Some l))) b None
        = YandexSTT_execute post jy (fst (YandexSTT_execute post jy y a (Some l))) b (Some l)
    \<and> (token i \<noteq> [] \<and> config i ''url'' = Some u \<and> u \<noteq> [] \<longrightarrow>
         lang (fst (IBMSTT_execute post ji i a (Some l))) = l
         \<and> lang (fst (IBMSTT_execute post ji (fst (IBMSTT_execute post ji i a (Some l))) b None))
             = l
         \<and> IBMSTT_execute post ji (fst (IBMSTT_execute post ji i a (Some l))) b None
             = IBMSTT_execute post ji (fst (IBMSTT_execute post ji i a (Some l))) b (Some l))"
proof -
  have g1: "lang (fst (GoogleSTT_execute rg g a (Some l))) = l"
    using assms by (rule GoogleSTT_override)
  have g0: "token (fst (GoogleSTT_execute rg g a (Some l))) = token g"
    by (simp add: GoogleSTT_execute_def Let_def)
  have g2: "GoogleSTT_execute rg (fst (GoogleSTT_execute rg g a (Some l))) b None
        = (fst (GoogleSTT_execute rg g a (Some l)), rg b (token g) l)"
    by (simp only: GoogleSTT_next_call g1 g0)
  have y1: "lang (fst (YandexSTT_execute post jy y a (Some l))) = l"
    using assms by (rule YandexSTT_override)
  have y2: "lang (fst (YandexSTT_execute post jy (fst (YandexSTT_execute post jy y a (Some l)))
                         b None)) = l"
    by (simp only: YandexSTT_keeps y1)
  have y3: "YandexSTT_execute post jy (fst (YandexSTT_execute post jy y a (Some l))) b None
        = YandexSTT_execute post jy (fst (YandexSTT_execute post jy y a (Some l))) b (Some l)"
    using assms y1 by (rule YandexSTT_same)
  have i123: "lang (fst (IBMSTT_execute post ji i a (Some l))) = l
         \<and> lang (fst (IBMSTT_execute post ji (fst (IBMSTT_execute post ji i a (Some l))) b None))
             = l
         \<and> IBMSTT_execute post ji (fst (IBMSTT_execute post ji i a (Some l))) b None
             = IBMSTT_execute post ji (fst (IBMSTT_execute post ji i a (Some l))) b (Some l)"
    if h: "token i \<noteq> []" "config i ''url'' = Some u" "u \<noteq> []"
  proof -
    have i1: "lang (fst (IBMSTT_execute post ji i a (Some l))) = l"
      using assms h by (rule IBMSTT_override)
    have i2: "lang (fst (IBMSTT_execute post ji (fst (IBMSTT_execute post ji i a (Some l)))
                           b None)) = l"
      by (simp only: IBMSTT_keeps i1)
    have i3: "IBMSTT_execute post ji (fst (IBMSTT_execute post ji i a (Some l))) b None
             = IBMSTT_execute post ji (fst (IBMSTT_execute post ji i a (Some l))) b (Some l)"
      using assms i1 by (rule IBMSTT_same)
    from i1 i2 i3 show ?thesis by blast
  qed
  from g1 g2 y1 y2 y3 i123 show ?thesis by blast
qed

theorem language_override_witness:
  "lang (fst (GoogleSTT_execute (\<lambda>a key language. Inr language)
                \<lparr>lang = ''en-US'', config = Map.empty, credential = Map.empty,
                  token = ''k''\<rparr>
                \<lparr>sample_rate = 16000, frame_data = []\<rparr> (Some ''fr-FR''))) = ''fr-FR''
   \<and> snd (GoogleSTT_execute (\<lambda>a key language. Inr language)
            (fst (GoogleSTT_execute (\<lambda>a key language. Inr language)
                    \<lparr>lang = ''en-US'', config = Map.empty, credential = Map.empty,
                      token = ''k''\<rparr>
                    \<lparr>sample_rate = 16000, frame_data = []\<rparr> (Some ''fr-FR'')))
            \<lparr>sample_rate = 8000, frame_data = []\<rparr> None) = Inr ''fr-FR''
   \<and> lang (fst (IBMSTT_execute (\<lambda>r. Inl (OtherError ''network down''))
                   (\<lambda>s. Inl (OtherError ''not json''))
                   \<lparr>lang = ''en-US'', config = [''url'' \<mapsto> ''https://stt.example''],
                     credential = Map.empty, token = ''k''\<rparr>
                   \<lparr>sample_rate = 16000, frame_data = []\<rparr> (Some ''fr-FR''))) = ''fr-FR''"
proof -
  let ?g = "\<lparr>lang = ''en-US'', config = Map.empty, credential = Map.empty, token = ''k''\<rparr>"
  let ?i = "\<lparr>lang = ''en-US'', config = [''url'' \<mapsto> ''https://stt.example''],
             credential = Map.empty, token = ''k''\<rparr>"
  let ?a = "\<lparr>sample_rate = 16000, frame_data = []\<rparr>"
  let ?b = "\<lparr>sample_rate = 8000, frame_data = []\<rparr>"
  let ?y = "\<lparr>lang = ''en-US'', config = Map.empty, credential = Map.empty, api_key = ''k''\<rparr>"
  have h: "''fr-FR'' \<noteq> []" by simp
  have hi: "token ?i \<noteq> [] \<and> config ?i ''url'' = Some ''https://stt.example''
            \<and> ''https://stt.example'' \<noteq> []"
    by simp
  note t = language_override
      [OF h, where rg = "\<lambda>a key language. Inr language" and g = ?g and a = ?a and b = ?b
         and i = ?i and u = "''https://stt.example''"
         and post = "\<lambda>r. Inl (OtherError ''network down'')"
         and ji = "\<lambda>s. Inl (OtherError ''not json'')"
         and jy = "\<lambda>s. Inl (OtherError ''not json'')" and y = ?y]
  from t have a: "lang (fst (GoogleSTT_execute (\<lambda>a key language. Inr language) ?g ?a
                               (Some ''fr-FR''))) = ''fr-FR''"
    by blast
  from t have "GoogleSTT_execute (\<lambda>a key language. Inr language)
                 (fst (GoogleSTT_execute (\<lambda>a key language. Inr language) ?g ?a (Some ''fr-FR'')))
                 ?b None
               = (fst (GoogleSTT_execute (\<lambda>a key language. Inr language) ?g ?a (Some ''fr-FR'')),
                  Inr ''fr-FR'')"
    by blast
  then have b: "snd (GoogleSTT_execute (\<lambda>a key language. Inr language)
                 (fst (GoogleSTT_execute (\<lambda>a key language. Inr language) ?g ?a (Some ''fr-FR'')))
                 ?b None) = Inr ''fr-FR''"
    by simp
  from t hi have c: "lang (fst (IBMSTT_execute (\<lambda>r. Inl (OtherError ''network down''))
                   (\<lambda>s. Inl (OtherError ''not json'')) ?i ?a (Some ''fr-FR''))) = ''fr-FR''"
    by blast
  from a b c show ?thesis by blast
qed

subsection \<open>The worker\<close>

lemma get_data_Nil: "get_data [] = None"
  by (simp add: get_data.simps)

lemma get_data_None: "get_data (None # q) = Some ([], [None], q)"
  by (simp add: get_data.simps)

lemma get_data_Some:
  "get_data (Some d # q) =
     (case get_data q of
        None \<Rightarrow> None
      | Some (ys, obs, rest) \<Rightarrow> Some (d # ys, Some d # obs, rest))"
  by (subst get_data.simps) simp

lemma get_data_chunks:
  "get_data (map Some xs @ None # r) = Some (xs, map Some xs @ [None], r)"
  by (induction xs) (simp_all add: get_data_None get_data_Some)

lemma run_Done: "on_chunks h seen = Done f \<Longrightarrow> run h seen q = (Ended f, [], q)"
  by (subst run.simps) simp

lemma run_Never: "on_chunks h seen = Never \<Longrightarrow> run h seen q = (Hung, [], q)"
  by (subst run.simps) simp

lemma run_Nil: "on_chunks h seen = More \<Longrightarrow> run h seen [] = (Waiting, [], [])"
  by (subst run.simps) simp

lemma run_None:
  "on_chunks h seen = More \<Longrightarrow>
   run h seen (None # q)
     = ((case on_end h seen of None \<Rightarrow> Hung | Some f \<Rightarrow> Ended f), [None], q)"
  by (subst run.simps) simp

lemma run_Some:
  "on_chunks h seen = More \<Longrightarrow>
   run h seen (Some d # q)
     = (case run h (seen @ [d]) q of (e, obs, rest) \<Rightarrow> (e, Some d # obs, rest))"
  by (subst run.simps) simp

text \<open>A worker whose queue holds the marker does not wait for ever on its queue.\<close>

lemma run_no_wait: "None \<in> set q \<Longrightarrow> fst (run h seen q) \<noteq> Waiting"
proof (induction q arbitrary: seen)
  case Nil
  then show ?case by simp
next
  case (Cons x q)
  show ?case
  proof (cases "on_chunks h seen")
    case More
    show ?thesis
    proof (cases x)
      case None
      with More show ?thesis by (simp add: run_None split: option.splits)
    next
      case (Some d)
      with Cons.prems have "None \<in> set q" by simp
      then have "fst (run h (seen @ [d]) q) \<noteq> Waiting" by (rule Cons.IH)
      with More Some show ?thesis
        by (cases "run h (seen @ [d]) q") (simp add: run_Some)
    qed
  next
    case (Done f)
    then show ?thesis by (simp add: run_Done)
  next
    case Never
    then show ?thesis by (simp add: run_Never)
  qed
qed

text \<open>What the worker took and what it left make up the queue, in order.\<close>

lemma run_split: "run h seen q = (e, obs, rest) \<Longrightarrow> obs @ rest = q"
proof (induction q arbitrary: seen e obs rest)
  case Nil
  then show ?case
    by (cases "on_chunks h seen") (simp_all add: run_Nil run_Done run_Never)
next
  case (Cons x q)
  show ?case
  proof (cases "on_chunks h seen")
    case More
    show ?thesis
    proof (cases x)
      case None
      with More Cons.prems show ?thesis by (auto simp: run_None)
    next
      case (Some d)
      with More Cons.prems Cons.IH show ?thesis
        by (auto simp: run_Some split: prod.splits)
    qed
  next
    case (Done f)
    with Cons.prems show ?thesis by (simp add: run_Done)
  next
    case Never
    with Cons.prems show ?thesis by (simp add: run_Never)
  qed
qed

subsection \<open>The worker under any schedule\<close>

text \<open>
  Whatever the interleaving of the caller's puts and the worker's moves, once everything
  is put and the worker has halted, it has fared as \<open>run\<close> says on the whole sequence of
  items; and when \<open>run\<close> says the worker halts, some schedule ends there.
\<close>

lemma step_outcome: "step h c c' \<Longrightarrow> outcome h c' = outcome h c"
proof (induction rule: step.induct)
  case (caller_puts x pending q taken w)
  then show ?case by (cases w) simp_all
next
  case (worker_ends seen f pending q taken)
  then show ?case by (simp add: run_Done)
next
  case (worker_hangs seen pending q taken)
  then show ?case by (simp add: run_Never)
next
  case (worker_gets_chunk seen pending d q taken)
  then show ?case by (simp add: run_Some split: prod.splits)
next
  case (worker_gets_marker seen pending q taken)
  then show ?case by (simp add: run_None)
qed

lemma steps_outcome: "(step h)\<^sup>*\<^sup>* c c' \<Longrightarrow> outcome h c' = outcome h c"
  by (induction rule: rtranclp_induct) (simp_all add: step_outcome)

lemma schedule_independent:
  assumes "(step h)\<^sup>*\<^sup>* (items, q0, [], Running []) ([], q, taken, Halted e)"
  shows "run h [] (q0 @ items) = (e, taken, q)"
  using steps_outcome [OF assms] by (simp split: prod.splits)

lemma puts_first: "(step h)\<^sup>*\<^sup>* (items, q, taken, w) ([], q @ items, taken, w)"
proof (induction items arbitrary: q)
  case Nil
  show ?case by simp
next
  case (Cons x items)
  have "step h (x # items, q, taken, w) (items, q @ [x], taken, w)" by (rule caller_puts)
  moreover have "(step h)\<^sup>*\<^sup>* (items, q @ [x], taken, w) ([], (q @ [x]) @ items, taken, w)"
    by (rule Cons.IH)
  ultimately show ?case by (simp add: converse_rtranclp_into_rtranclp)
qed

lemma worker_runs:
  "run h seen q = (e, obs, rest) \<Longrightarrow> e \<noteq> Waiting \<Longrightarrow>
   (step h)\<^sup>*\<^sup>* ([], q, taken, Running seen) ([], rest, taken @ obs, Halted e)"
proof (induction q arbitrary: seen taken obs)
  case Nil
  show ?case
  proof (cases "on_chunks h seen")
    case More
    with Nil show ?thesis by (simp add: run_Nil)
  next
    case (Done f)
    with Nil have "e = Ended f" "obs = []" "rest = []" by (simp_all add: run_Done)
    with Done show ?thesis by (auto intro!: r_into_rtranclp worker_ends)
  next
    case Never
    with Nil have "e = Hung" "obs = []" "rest = []" by (simp_all add: run_Never)
    with Never show ?thesis by (auto intro!: r_into_rtranclp worker_hangs)
  qed
next
  case (Cons x q)
  show ?case
  proof (cases "on_chunks h seen")
    case (Done f)
    with Cons.prems have "e = Ended f" "obs = []" "rest = x # q" by (simp_all add: run_Done)
    with Done show ?thesis by (auto intro!: r_into_rtranclp worker_ends)
  next
    case Never
    with Cons.prems have "e = Hung" "obs = []" "rest = x # q" by (simp_all add: run_Never)
    with Never show ?thesis by (auto intro!: r_into_rtranclp worker_hangs)
  next
    case More
    show ?thesis
    proof (cases x)
      case None
      with More Cons.prems
      have "e = (case on_end h seen of None \<Rightarrow> Hung | Some f \<Rightarrow> Ended f)"
        "obs = [None]" "rest = q"
        by (simp_all add: run_None)
      with None show ?thesis
        using worker_gets_marker [OF More, of "[]" q taken] by (simp add: r_into_rtranclp)
    next
      case (Some d)
      with More Cons.prems obtain obs' where
        r: "run h (seen @ [d]) q = (e, obs', rest)" and o: "obs = Some d # obs'"
        by (auto simp: run_Some split: prod.splits)
      have "step h ([], Some d # q, taken, Running seen)
                   ([], q, taken @ [Some d], Running (seen @ [d]))"
        using More by (rule worker_gets_chunk)
      moreover have "(step h)\<^sup>*\<^sup>* ([], q, taken @ [Some d], Running (seen @ [d]))
                       ([], rest, (taken @ [Some d]) @ obs', Halted e)"
        using r Cons.prems(2) by (rule Cons.IH)
      ultimately show ?thesis
        using Some o by (simp add: converse_rtranclp_into_rtranclp)
    qed
  qed
qed

lemma schedule_exists:
  assumes "run h [] (q0 @ items) = (e, obs, rest)" and "e \<noteq> Waiting"
  shows "(step h)\<^sup>*\<^sup>* (items, q0, [], Running []) ([], rest, obs, Halted e)"
proof -
  have "(step h)\<^sup>*\<^sup>* (items, q0, [], Running []) ([], q0 @ items, [], Running [])"
    by (rule puts_first)
  moreover have "(step h)\<^sup>*\<^sup>* ([], q0 @ items, [], Running []) ([], rest, [] @ obs, Halted e)"
    using assms by (rule worker_runs)
  ultimately show ?thesis by simp
qed

subsection \<open>stream_stop, stream_start and stream_data\<close>

lemma stream_stop_idle: "stream s = None \<Longrightarrow> stream_stop s = Some (s, Inr None)"
  by (simp add: stream_stop_def)

lemma stream_stop_active:
  assumes "stream s = Some t" and "queue s = Some (t_queue t)"
    and "run (t_handler t) [] (store s (t_queue t) @ [None]) = (Ended f, obs, rest)"
  shows "stream_stop s =
     Some (s\<lparr>store := (store s)(t_queue t := rest),
             live := remove1 (t_queue t) (live s),
             stream := None, queue := None\<rparr>, Inr (fin_text f))"
  using assms by (simp add: stream_stop_def put_def Let_def)

lemma stream_stop_hangs:
  assumes "stream s = Some t" and "queue s = Some (t_queue t)"
    and "run (t_handler t) [] (store s (t_queue t) @ [None]) = (Hung, obs, rest)"
  shows "stream_stop s = None"
  using assms by (simp add: stream_stop_def put_def Let_def)

text \<open>On a well-formed backend \<open>stream_stop\<close>, when it returns, raises nothing and leaves no worker.\<close>

lemma stream_stop_returned:
  assumes "wf_state s" and "stream_stop s = Some (s1, r)"
  shows "(\<exists>txt. r = Inr txt) \<and> stream s1 = None \<and> live s1 = []
         \<and> (stream s \<noteq> None \<longrightarrow> queue s1 = None)"
proof (cases "stream s")
  case None
  with assms show ?thesis
    by (auto simp: stream_stop_idle wf_state_def)
next
  case (Some t)
  with assms(1) have q: "queue s = Some (t_queue t)" and l: "live s = [t_queue t]"
    by (simp_all add: wf_state_def)
  obtain e obs rest
    where r: "run (t_handler t) [] (store s (t_queue t) @ [None]) = (e, obs, rest)"
    by (cases "run (t_handler t) [] (store s (t_queue t) @ [None])") auto
  show ?thesis
  proof (cases e)
    case (Ended f)
    with r have "run (t_handler t) [] (store s (t_queue t) @ [None]) = (Ended f, obs, rest)"
      by simp
    from stream_stop_active [OF Some q this] assms(2) l Some show ?thesis by auto
  next
    case Hung
    with r Some q assms(2) show ?thesis
      by (simp add: stream_stop_def put_def Let_def)
  next
    case Waiting
    with r Some q assms(2) show ?thesis
      by (simp add: stream_stop_def put_def Let_def)
  qed
qed


lemma stream_stop_result_idle:
  "stream_stop s = Some (s1, Inr r) \<Longrightarrow> stream s1 = None"
  by (auto simp: stream_stop_def Let_def split: option.splits prod.splits ending.splits)

lemma stream_stop_wf:
  "wf_state s \<Longrightarrow> stream_stop s = Some (s1, r) \<Longrightarrow> wf_state s1"
  using stream_stop_returned [of s s1 r] by (auto simp: wf_state_def)

lemma stream_data_wf:
  "wf_state s \<Longrightarrow> stream_data s d = (s1, r) \<Longrightarrow> wf_state s1"
  by (auto simp: stream_data_def wf_state_def put_def split: option.splits)

lemma start_fresh_shape:
  assumes "stream s1 = None" and "live s1 = []"
  shows "(case create_streaming_thread cls (new_queue s1) of
            (s3, Inl e) \<Rightarrow> stream s3 = None \<and> live s3 = []
          | (s3, Inr t) \<Rightarrow> queue s3 = Some (t_queue t) \<and> store s3 (t_queue t) = []
                             \<and> live s3 = [] \<and> t_text t = None)"
  using assms
  by (auto simp: create_streaming_thread_def new_queue_def StreamThread_init_def Let_def
           split: sum.splits prod.splits)

lemma stream_start_wf:
  assumes "wf_state s" and "stream_start cls s language = Some (s', r)"
  shows "wf_state s'"
proof -
  from assms(2) obtain s1 r1 where st: "stream_stop s = Some (s1, r1)"
    by (auto simp: stream_start_def split: option.splits)
  from stream_stop_returned [OF assms(1) st] obtain tr
    where r1: "r1 = Inr tr" and i: "stream s1 = None" "live s1 = []"
    by blast
  from start_fresh_shape [OF i, of cls] assms(2) st r1 show ?thesis
    by (auto simp: stream_start_def Let_def wf_state_def split: prod.splits sum.splits)
qed

lemma reachable_wf: "reachable cls s \<Longrightarrow> wf_state s"
proof (induction rule: reachable.induct)
  case (constructed cc)
  show ?case by (simp add: wf_state_def StreamingSTT_init_def)
next
  case (started s language s' r)
  then show ?case using stream_start_wf by blast
next
  case (fed s d s' r')
  then show ?case using stream_data_wf by blast
next
  case (stopped s s' r'')
  then show ?case using stream_stop_wf by blast
next
  case (executed s a language s' r'')
  then show ?case using stream_stop_wf by (simp add: execute_def)
qed

text \<open>The equations that evaluate a session on a concrete backend.\<close>

lemmas session_eval = stream_start_def stream_stop_def stream_data_def
  create_streaming_thread_def new_queue_def put_def StreamingSTT_init_def StreamThread_init_def
  GoogleCloudStreamingSTT_def Google_handle_audio_stream_def DeepSpeechStreamServerSTT_def
  DeepSpeech_handle_audio_stream_def DeepSpeech_text_def Let_def run_Done run_Never run_Nil
  run_None run_Some py_or_def resp_ok_def

lemma stream_start_started:
  assumes "stream_start cls s0 language = Some (s1, Inr u)"
  shows "\<exists>t. stream s1 = Some t \<and> queue s1 = Some (t_queue t) \<and> store s1 (t_queue t) = []
             \<and> t_text t = None"
  using assms
  by (auto simp: stream_start_def create_streaming_thread_def new_queue_def
        StreamThread_init_def Let_def split: option.splits sum.splits prod.splits)

subsection \<open>Stopping without a stream\<close>

text \<open>
  Claim C6. \<open>stream_stop\<close> on a backend with no active worker, be it newly constructed
  or left by an earlier \<open>stream_stop\<close>, returns \<open>None\<close>, the absent transcript, raises
  nothing and leaves the backend as it was.
\<close>

theorem stream_stop_without_stream:
  "(stream s = None \<longrightarrow> stream_stop s = Some (s, Inr None))
   \<and> stream_stop (StreamingSTT_init cc) = Some (StreamingSTT_init cc, Inr None)
   \<and> (stream_stop s0 = Some (s1, Inr r) \<longrightarrow> stream_stop s1 = Some (s1, Inr None))"
proof -
  have a: "stream s = None \<longrightarrow> stream_stop s = Some (s, Inr None)"
    by (simp add: stream_stop_idle)
  have b: "stream_stop (StreamingSTT_init cc) = Some (StreamingSTT_init cc, Inr None)"
    by (rule stream_stop_idle) (simp add: StreamingSTT_init_def)
  have c: "stream_stop s0 = Some (s1, Inr r) \<longrightarrow> stream_stop s1 = Some (s1, Inr None)"
    using stream_stop_result_idle [of s0 s1 r] by (simp add: stream_stop_idle)
  from a b c show ?thesis by blast
qed

theorem stream_stop_without_stream_witness:
  "stream_stop (StreamingSTT_init \<lparr>cfg_lang = Some ''en-us'', cfg_module = Map.empty,
                                   cfg_credential = Map.empty\<rparr> :: nat streaming)
   = Some (StreamingSTT_init \<lparr>cfg_lang = Some ''en-us'', cfg_module = Map.empty,
                               cfg_credential = Map.empty\<rparr>, Inr None)"
proof -
  let ?s = "StreamingSTT_init \<lparr>cfg_lang = Some ''en-us'', cfg_module = Map.empty,
                               cfg_credential = Map.empty\<rparr> :: nat streaming"
  have h: "stream ?s = None" by (simp add: StreamingSTT_init_def)
  from stream_stop_without_stream [where s = ?s] h show ?thesis by blast
qed

subsection \<open>execute of a streaming backend\<close>

text \<open>
  Claim C9. \<open>StreamingSTT.execute\<close> returns what \<open>stream_stop\<close> returns and changes the
  backend as \<open>stream_stop\<close> does; the audio and the language passed have no influence.
\<close>

theorem execute_ignores_arguments:
  "execute s a language = stream_stop s \<and> execute s a language = execute s a' language'"
  by (simp add: execute_def)

subsection \<open>One worker at a time\<close>




subsection \<open>Delivery of the chunks\<close>

text \<open>
  Claim C1, as stated, fails for a worker whose handler stops reading. With the worker of
  \<open>DeepSpeechStreamServerSTT\<close> and a \<open>post\<close> that raises before it reads its data, the
  session \<open>stream_start\<close>, \<open>stream_data(3)\<close>, \<open>stream_data(4)\<close>, \<open>stream_stop\<close> returns, but
  the loop of \<open>_get_data\<close> has obtained no item: both chunks and the marker are still in
  the queue of the worker after the join (on a new backend that queue is the second
  queue object created, at address 1).
\<close>

theorem stream_delivery_counterexample:
  "run (t_handler (the (stream
          (fst (the (stream_start
             (DeepSpeechStreamServerSTT
                (\<lambda>url. \<lparr>on_chunks = (\<lambda>seen :: nat list. Done (Inl (OtherError ''connection refused''))),
                        on_end = (\<lambda>seen. None)\<rparr>))
             (StreamingSTT_init \<lparr>cfg_lang = Some ''en-us'', cfg_module = Map.empty,
                                  cfg_credential = Map.empty\<rparr>)
             None))))))
       [] [Some 3, Some 4, None]
   = (Ended (Fin None (Some (OtherError ''connection refused''))), [], [Some 3, Some 4, None])
   \<and> map_option (\<lambda>p. (store (fst p) 1, snd p))
       (stream_stop
          (fst (stream_data
             (fst (stream_data
                (fst (the (stream_start
                   (DeepSpeechStreamServerSTT
                      (\<lambda>url. \<lparr>on_chunks = (\<lambda>seen :: nat list.
                                              Done (Inl (OtherError ''connection refused''))),
                              on_end = (\<lambda>seen. None)\<rparr>))
                   (StreamingSTT_init \<lparr>cfg_lang = Some ''en-us'', cfg_module = Map.empty,
                                        cfg_credential = Map.empty\<rparr>)
                   None)))
                (Some 3)))
             (Some 4))))
     = Some ([Some 3, Some 4, None], Inr None)"
proof -
  have l: "init_language (Some ''en-us'') = ''en-US''" by code_simp
  show ?thesis by (simp add: session_eval l)
qed

text \<open>
  Claim C1, amended. For every session of a \<open>stream_start\<close> that returned, \<open>stream_data(a)\<close>,
  \<open>stream_data(b)\<close> and \<open>stream_stop\<close> whose worker's \<open>handle_audio_stream\<close> keeps reading
  its audio until the generator is exhausted, the loop of \<open>_get_data\<close> obtains \<open>a\<close> and \<open>b\<close>
  in this order, once each, and then the marker, the last item it obtains. For every
  handler: both calls of \<open>stream_data\<close> succeed; once \<open>stream_stop\<close> has put the marker the
  queue of the worker holds \<open>a\<close>, \<open>b\<close> and the marker and nothing else; the worker does
  not wait for ever on its queue; what it obtained and what it left make up that
  sequence in order; \<open>stream_stop\<close> returns when the handler ends and waits for ever when
  the handler does; and every interleaving of the three puts with the moves of the
  worker gives the same.
\<close>

theorem stream_delivery:
  assumes "stream_start cls s0 language = Some (s1, Inr ())"
  shows "\<exists>t. stream s1 = Some t \<and> queue s1 = Some (t_queue t) \<and>
     (let s2 = fst (stream_data s1 (Some a));
          s3 = fst (stream_data s2 (Some b))
      in snd (stream_data s1 (Some a)) = Inr () \<and> snd (stream_data s2 (Some b)) = Inr ()
       \<and> store (put (t_queue t) None s3) (t_queue t) = [Some a, Some b, None]
       \<and> get_data [Some a, Some b, None] = Some ([a, b], [Some a, Some b, None], [])
       \<and> (\<exists>e obs rest.
             run (t_handler t) [] [Some a, Some b, None] = (e, obs, rest)
             \<and> obs @ rest = [Some a, Some b, None]
             \<and> e \<noteq> Waiting
             \<and> (on_chunks (t_handler t) [] = More \<and> on_chunks (t_handler t) [a] = More
                  \<and> on_chunks (t_handler t) [a, b] = More
                  \<longrightarrow> obs = [Some a, Some b, None] \<and> rest = []
                      \<and> e = (case on_end (t_handler t) [a, b] of
                                None \<Rightarrow> Hung
                              | Some f \<Rightarrow> Ended f))
             \<and> (\<forall>f. e = Ended f \<longrightarrow> (\<exists>s4. stream_stop s3 = Some (s4, Inr (fin_text f))))
             \<and> (e = Hung \<longrightarrow> stream_stop s3 = None)
             \<and> (\<forall>q' taken e'.
                    (step (t_handler t))\<^sup>*\<^sup>*
                      ([Some a, Some b, None], [], [], Running []) ([], q', taken, Halted e')
                    \<longrightarrow> e' = e \<and> taken = obs \<and> q' = rest)))"
proof -
  from assms obtain t where t: "stream s1 = Some t" and q: "queue s1 = Some (t_queue t)"
    and e: "store s1 (t_queue t) = []"
    using stream_start_started by blast
  let ?h = "t_handler t"
  let ?q = "t_queue t"
  let ?s2 = "put ?q (Some a) s1"
  let ?s3 = "put ?q (Some b) ?s2"
  let ?items = "[Some a, Some b, None]"
  have d1: "stream_data s1 (Some a) = (?s2, Inr ())"
    using q by (simp add: stream_data_def)
  have q2: "queue ?s2 = Some ?q" using q by (simp add: put_def)
  have d2: "stream_data ?s2 (Some b) = (?s3, Inr ())"
    using q2 by (simp add: stream_data_def)
  have st3: "store ?s3 ?q = [Some a, Some b]"
    using e by (simp add: put_def)
  have items: "store (put ?q None ?s3) ?q = ?items"
    using e by (simp add: put_def)
  have t3: "stream ?s3 = Some t" using t by (simp add: put_def)
  have q3: "queue ?s3 = Some ?q" using q by (simp add: put_def)
  have g: "get_data ?items = Some ([a, b], ?items, [])"
    using get_data_chunks [of "[a, b]" "[]"] by simp
  obtain en obs rest where r: "run ?h [] ?items = (en, obs, rest)"
    by (cases "run ?h [] ?items") auto
  from r have sp: "obs @ rest = ?items" by (rule run_split)
  have nw: "en \<noteq> Waiting"
    using run_no_wait [of ?items ?h "[]"] r by simp
  have r': "run ?h [] (store ?s3 ?q @ [None]) = (en, obs, rest)"
    using r st3 by simp
  have ended: "\<exists>s4. stream_stop ?s3 = Some (s4, Inr (fin_text f))" if "en = Ended f" for f
    using stream_stop_active [OF t3 q3, of f obs rest] r' that by simp
  have hung: "stream_stop ?s3 = None" if "en = Hung"
    using stream_stop_hangs [OF t3 q3, of obs rest] r' that by simp
  have all: "obs = ?items \<and> rest = []
             \<and> en = (case on_end ?h [a, b] of None \<Rightarrow> Hung | Some f \<Rightarrow> Ended f)"
    if m: "on_chunks ?h [] = More \<and> on_chunks ?h [a] = More \<and> on_chunks ?h [a, b] = More"
    using r m by (simp add: run_Some run_None)
  have sched: "e' = en \<and> taken = obs \<and> q' = rest"
    if "(step ?h)\<^sup>*\<^sup>* (?items, [], [], Running []) ([], q', taken, Halted e')"
    for q' taken e'
    using schedule_independent [OF that] r by simp
  have inner: "\<exists>e obs rest.
             run ?h [] ?items = (e, obs, rest)
             \<and> obs @ rest = ?items
             \<and> e \<noteq> Waiting
             \<and> (on_chunks ?h [] = More \<and> on_chunks ?h [a] = More \<and> on_chunks ?h [a, b] = More
                  \<longrightarrow> obs = ?items \<and> rest = []
                      \<and> e = (case on_end ?h [a, b] of None \<Rightarrow> Hung | Some f \<Rightarrow> Ended f))
             \<and> (\<forall>f. e = Ended f \<longrightarrow> (\<exists>s4. stream_stop ?s3 = Some (s4, Inr (fin_text f))))
             \<and> (e = Hung \<longrightarrow> stream_stop ?s3 = None)
             \<and> (\<forall>q' taken e'.
                    (step ?h)\<^sup>*\<^sup>* (?items, [], [], Running []) ([], q', taken, Halted e')
                    \<longrightarrow> e' = e \<and> taken = obs \<and> q' = rest)"
    using r sp nw all ended hung sched by blast
  show ?thesis
    using t q d1 d2 items g inner by (simp add: Let_def)
qed

theorem stream_delivery_witness:
  "map_option snd
     (stream_stop
        (fst (stream_data
           (fst (stream_data
              (fst (the (stream_start
                 (DeepSpeechStreamServerSTT
                    (\<lambda>url. \<lparr>on_chunks = (\<lambda>seen :: nat list. More),
                            on_end = (\<lambda>chunks. Some (Inr \<lparr>status_code = 200,
                               resp_text = (if chunks = [3, 4] then ''three four''
                                            else ''other'')\<rparr>))\<rparr>))
                 (StreamingSTT_init \<lparr>cfg_lang = Some ''en-us'', cfg_module = Map.empty,
                                      cfg_credential = Map.empty\<rparr>)
                 None)))
              (Some 3)))
           (Some 4))))
   = Some (Inr (Some ''three four''))"
proof -
  let ?post = "\<lambda>url :: string option.
                 \<lparr>on_chunks = (\<lambda>seen :: nat list. More),
                  on_end = (\<lambda>chunks. Some (Inr \<lparr>status_code = 200,
                     resp_text = (if chunks = [3, 4] then ''three four'' else ''other'')\<rparr>
                     :: exn + response))\<rparr>"
  let ?cls = "DeepSpeechStreamServerSTT ?post"
  let ?init = "StreamingSTT_init \<lparr>cfg_lang = Some ''en-us'', cfg_module = Map.empty,
                                   cfg_credential = Map.empty\<rparr> :: nat streaming"
  let ?s1 = "fst (the (stream_start ?cls ?init None))"
  let ?s3 = "fst (stream_data (fst (stream_data ?s1 (Some 3))) (Some 4))"
  have l: "init_language (Some ''en-us'') = ''en-US''" by code_simp
  have h: "stream_start ?cls ?init None = Some (?s1, Inr ())"
    by (simp add: session_eval l)
  have hd: "t_handler (the (stream ?s1)) = DeepSpeech_handle_audio_stream ?post None"
    by (simp add: session_eval l)
  from stream_delivery [OF h, of 3 4] obtain t
    where t: "stream ?s1 = Some t"
      and b: "\<exists>e obs rest.
             run (t_handler t) [] [Some 3, Some 4, None] = (e, obs, rest)
             \<and> obs @ rest = [Some 3, Some 4, None]
             \<and> e \<noteq> Waiting
             \<and> (on_chunks (t_handler t) [] = More \<and> on_chunks (t_handler t) [3] = More
                  \<and> on_chunks (t_handler t) [3, 4] = More
                  \<longrightarrow> obs = [Some 3, Some 4, None] \<and> rest = []
                      \<and> e = (case on_end (t_handler t) [3, 4] of
                                None \<Rightarrow> Hung
                              | Some f \<Rightarrow> Ended f))
             \<and> (\<forall>f. e = Ended f \<longrightarrow> (\<exists>s4. stream_stop ?s3 = Some (s4, Inr (fin_text f))))
             \<and> (e = Hung \<longrightarrow> stream_stop ?s3 = None)
             \<and> (\<forall>q' taken e'.
                    (step (t_handler t))\<^sup>*\<^sup>*
                      ([Some 3, Some 4, None], [], [], Running []) ([], q', taken, Halted e')
                    \<longrightarrow> e' = e \<and> taken = obs \<and> q' = rest)"
    unfolding Let_def by blast
  from b obtain e
    where m: "on_chunks (t_handler t) [] = More \<and> on_chunks (t_handler t) [3] = More
                \<and> on_chunks (t_handler t) [3, 4] = More
              \<longrightarrow> e = (case on_end (t_handler t) [3, 4] of None \<Rightarrow> Hung | Some f \<Rightarrow> Ended f)"
      and s: "\<forall>f. e = Ended f \<longrightarrow> (\<exists>s4. stream_stop ?s3 = Some (s4, Inr (fin_text f)))"
    by blast
  from t hd have th: "t_handler t = DeepSpeech_handle_audio_stream ?post None" by simp
  have reads: "on_chunks (t_handler t) [] = More \<and> on_chunks (t_handler t) [3] = More
                \<and> on_chunks (t_handler t) [3, 4] = More"
    by (simp add: th DeepSpeech_handle_audio_stream_def)
  with m have "e = (case on_end (t_handler t) [3, 4] of None \<Rightarrow> Hung | Some f \<Rightarrow> Ended f)"
    by blast
  then have "e = Ended (Fin (Some ''three four'') None)"
    by (simp add: th DeepSpeech_handle_audio_stream_def DeepSpeech_text_def resp_ok_def)
  with s obtain s4
    where "stream_stop ?s3 = Some (s4, Inr (fin_text (Fin (Some ''three four'') None)))"
    by blast
  then show ?thesis by simp
qed

subsection \<open>A worker that raises\<close>

text \<open>
  Claim C2, amended. On every reachable backend with an active worker whose
  \<open>handle_audio_stream\<close> raises an error, \<open>stream_stop\<close> terminates and returns: the worker
  thread finishes, the error is not raised to the caller of \<open>stream_stop\<close>, and the worker
  and queue references are released. The transcript returned is the value \<open>self.text\<close> of
  the worker had when the error was raised: \<open>None\<close> when the handler had not set it. Given
  the marker, no worker waits for ever on its queue.
\<close>

theorem stream_stop_after_error:
  assumes "reachable cls s" and "stream s = Some t"
  shows "fst (run (t_handler t) [] (store s (t_queue t) @ [None])) \<noteq> Waiting
    \<and> (\<forall>tr e obs rest.
          run (t_handler t) [] (store s (t_queue t) @ [None])
            = (Ended (Fin tr (Some e)), obs, rest)
          \<longrightarrow> (\<exists>s1. stream_stop s = Some (s1, Inr tr)
                 \<and> stream s1 = None \<and> queue s1 = None \<and> live s1 = []))"
proof -
  from assms(1) have "wf_state s" by (rule reachable_wf)
  with assms(2) have q: "queue s = Some (t_queue t)" and l: "live s = [t_queue t]"
    by (simp_all add: wf_state_def)
  have a: "fst (run (t_handler t) [] (store s (t_queue t) @ [None])) \<noteq> Waiting"
    by (rule run_no_wait) simp
  have b: "\<exists>s1. stream_stop s = Some (s1, Inr tr)
                 \<and> stream s1 = None \<and> queue s1 = None \<and> live s1 = []"
    if "run (t_handler t) [] (store s (t_queue t) @ [None]) = (Ended (Fin tr (Some e)), obs, rest)"
    for tr e obs rest
    using stream_stop_active [OF assms(2) q that] l by simp
  from a b show ?thesis by blast
qed

text \<open>
  Claim C2, as stated, fails in the transcript returned: a handler may set \<open>self.text\<close>
  and raise afterwards. The handler of \<open>GoogleStreamThread\<close> does so when the response
  iterator gives a final result and then raises; \<open>stream_stop\<close> then returns that
  transcript, not \<open>None\<close>.
\<close>

theorem stream_stop_after_error_counterexample:
  "map_option snd
     (stream_stop
        (fst (stream_data
           (fst (the (stream_start
              (GoogleCloudStreamingSTT
                 \<lparr>on_chunks = (\<lambda>seen :: nat list. More),
                  on_end = (\<lambda>seen. Some
                    [Response [\<lparr>is_final = True, alternatives = [''hello'']\<rparr>],
                     StreamError (OtherError ''stream broken'')])\<rparr>)
              (StreamingSTT_init \<lparr>cfg_lang = None, cfg_module = Map.empty,
                                   cfg_credential = Map.empty\<rparr>)
              None)))
           (Some 7))))
   = Some (Inr (Some ''hello''))
   \<and> run (Google_handle_audio_stream
        \<lparr>on_chunks = (\<lambda>seen :: nat list. More),
         on_end = (\<lambda>seen. Some
           [Response [\<lparr>is_final = True, alternatives = [''hello'']\<rparr>],
            StreamError (OtherError ''stream broken'')])\<rparr>) [] [Some 7, None]
     = (Ended (Fin (Some ''hello'') (Some (OtherError ''stream broken''))), [Some 7, None], [])"
  by (simp add: session_eval)

theorem stream_stop_after_error_witness:
  "map_option snd
     (stream_stop
        (fst (stream_data
           (fst (stream_data
              (fst (the (stream_start
                 (DeepSpeechStreamServerSTT
                    (\<lambda>url. \<lparr>on_chunks = (\<lambda>seen :: nat list.
                               if seen = [] then More
                               else Done (Inl (OtherError ''connection reset''))),
                            on_end = (\<lambda>seen. None)\<rparr>))
                 (StreamingSTT_init \<lparr>cfg_lang = Some ''en-us'', cfg_module = Map.empty,
                                      cfg_credential = Map.empty\<rparr>)
                 None)))
              (Some 7)))
           (Some 8))))
   = Some (Inr None)"
proof -
  let ?post = "\<lambda>url :: string option.
                 \<lparr>on_chunks = (\<lambda>seen :: nat list.
                    if seen = [] then More
                    else Done (Inl (OtherError ''connection reset'') :: exn + response)),
                  on_end = (\<lambda>seen. None)\<rparr>"
  let ?cls = "DeepSpeechStreamServerSTT ?post"
  let ?init = "StreamingSTT_init \<lparr>cfg_lang = Some ''en-us'', cfg_module = Map.empty,
                                   cfg_credential = Map.empty\<rparr> :: nat streaming"
  let ?s1 = "fst (the (stream_start ?cls ?init None))"
  let ?s2 = "fst (stream_data ?s1 (Some 7))"
  let ?s3 = "fst (stream_data ?s2 (Some 8))"
  let ?t = "the (stream ?s3)"
  have l: "init_language (Some ''en-us'') = ''en-US''" by code_simp
  have h1: "stream_start ?cls ?init None = Some (?s1, Inr ())"
    by (simp add: session_eval l)
  have h2: "stream_data ?s1 (Some 7) = (?s2, Inr ())"
    by (simp add: session_eval l)
  have h3: "stream_data ?s2 (Some 8) = (?s3, Inr ())"
    by (simp add: session_eval l)
  have reach: "reachable ?cls ?s3"
    by (rule reachable.fed
          [OF reachable.fed [OF reachable.started [OF reachable.constructed h1] h2] h3])
  have active: "stream ?s3 = Some ?t"
    by (simp add: session_eval l)
  have ev: "run (t_handler ?t) [] (store ?s3 (t_queue ?t) @ [None])
            = (Ended (Fin None (Some (OtherError ''connection reset''))),
               [Some 7], [Some 8, None])"
    by (simp add: session_eval l)
  from stream_stop_after_error [OF reach active] ev
  obtain s4 where "stream_stop ?s3 = Some (s4, Inr None)"
    by blast
  then show ?thesis by simp
qed

end
